theory Spec2Isabelle
  imports Complex_Main "HOL-Library.AList"
begin

section \<open>Status taxonomy (types.ts)\<close>

text \<open>The two enums of types.ts, constructors in declaration order.\<close>

datatype UserRole = ADMIN | CHINA_AGENT | UAE_AGENT | IRAN_AGENT | CUSTOMER

datatype PackageStatus =
    PURCHASED_FROM_SELLER
  | IN_TRANSIT_TO_CHINA_AGENT
  | RECEIVED_IN_CHINA
  | QC_CHECKED
  | PACKED_CHINA
  | READY_TO_SHIP_UAE
  | SHIPPED_TO_UAE
  | ARRIVED_UAE
  | REPACKING
  | READY_TO_SHIP_IRAN
  | SHIPPED_TO_IRAN
  | ARRIVED_IRAN
  | OUT_FOR_DELIVERY
  | DELIVERED
  | ISSUE_REPORTED

text \<open>
  \<^verbatim>\<open>Object.values(PackageStatus)\<close>: the values of a string enum in declaration order.
  The exception value \<open>ISSUE_REPORTED\<close> is its last element.
\<close>

definition statusOrder :: "PackageStatus list" where
  "statusOrder =
     [PURCHASED_FROM_SELLER, IN_TRANSIT_TO_CHINA_AGENT, RECEIVED_IN_CHINA, QC_CHECKED,
      PACKED_CHINA, READY_TO_SHIP_UAE, SHIPPED_TO_UAE, ARRIVED_UAE, REPACKING,
      READY_TO_SHIP_IRAN, SHIPPED_TO_IRAN, ARRIVED_IRAN, OUT_FOR_DELIVERY, DELIVERED,
      ISSUE_REPORTED]"

section \<open>JavaScript array primitives\<close>

text \<open>
  \<^verbatim>\<open>Array.prototype.indexOf\<close>: the first index holding the element, \<open>-1\<close> when there is none.
\<close>

fun indexOf :: "'a list \<Rightarrow> 'a \<Rightarrow> int" where
  "indexOf [] x = - 1"
| "indexOf (y # ys) x =
     (if y = x then 0 else (let i = indexOf ys x in if i = - 1 then - 1 else i + 1))"

text \<open>
  \<^verbatim>\<open>Array.prototype.slice(start)\<close> with one argument: a negative start counts from the end
  (clamped at the beginning), a start beyond the length gives the empty array.
\<close>

definition slice :: "'a list \<Rightarrow> int \<Rightarrow> 'a list" where
  "slice xs start =
     (if start < 0 then drop (nat (max 0 (int (length xs) + start))) xs
      else drop (nat start) xs)"

section \<open>Role-transition policy (pages/ScanQR.tsx, getAvailableNextStatuses)\<close>

definition chinaStatuses :: "PackageStatus list" where
  "chinaStatuses =
     [PURCHASED_FROM_SELLER, IN_TRANSIT_TO_CHINA_AGENT, RECEIVED_IN_CHINA, QC_CHECKED,
      PACKED_CHINA, READY_TO_SHIP_UAE, SHIPPED_TO_UAE]"

definition uaeStatuses :: "PackageStatus list" where
  "uaeStatuses =
     [SHIPPED_TO_UAE, ARRIVED_UAE, REPACKING, READY_TO_SHIP_IRAN, SHIPPED_TO_IRAN]"

definition iranStatuses :: "PackageStatus list" where
  "iranStatuses = [SHIPPED_TO_IRAN, ARRIVED_IRAN, OUT_FOR_DELIVERY, DELIVERED]"

text \<open>
  The \<^verbatim>\<open>if / else if\<close> chain on \<^verbatim>\<open>user.role\<close> that fills \<^verbatim>\<open>allowedStatuses\<close>;
  a role matching no branch (\<open>CUSTOMER\<close>) keeps the initial empty array.
\<close>

definition allowedStatuses :: "UserRole \<Rightarrow> PackageStatus list" where
  "allowedStatuses role =
     (if role = CHINA_AGENT then chinaStatuses
      else if role = UAE_AGENT then uaeStatuses
      else if role = IRAN_AGENT then iranStatuses
      else if role = ADMIN then chinaStatuses @ uaeStatuses @ iranStatuses
      else [])"

text \<open>
  The component closes over \<^verbatim>\<open>user\<close> (\<open>None\<close> is the logged-out \<^verbatim>\<open>null\<close>); only its role
  is read. \<^verbatim>\<open>!current\<close> is never true of an enum member: every value is a non-empty string.
\<close>

definition getAvailableNextStatuses :: "UserRole option \<Rightarrow> PackageStatus \<Rightarrow> PackageStatus list" where
  "getAvailableNextStatuses user current =
     (case user of
        None \<Rightarrow> []
      | Some role \<Rightarrow>
          (let allowed = allowedStatuses role in
           if length allowed = 0 then []
           else (let currIdx = indexOf allowed current in
                 if currIdx = - 1 then [] else slice allowed (currIdx + 1))))"

section \<open>Documents (types.ts)\<close>

text \<open>
  A JavaScript \<^verbatim>\<open>number\<close> is only stored and copied by the code modelled here, never
  computed with. Optional fields (\<^verbatim>\<open>weight?: number\<close>) are \<open>option\<close>s. The field \<^verbatim>\<open>id\<close>
  of each interface carries a suffix, because \<open>id\<close> is the identity function of HOL and the
  fields of different records cannot share a name.
\<close>

type_synonym number = real

record Package =
  id_p :: string
  orderId :: string
  subOrderId :: string
  weight :: "number option"
  dimensions :: "string option"
  currentStatus :: PackageStatus
  trackingNumber :: string
  internalTrackingCode :: "string option"
  description :: string
  qrCodeData :: string
  warehouseBin :: "string option"
  productLink :: "string option"
  price :: "number option"
  declaredValue :: "number option"
  photoUrls :: "string list option"

text \<open>\<^verbatim>\<open>Partial<Package>\<close>: every field of \<open>Package\<close> may be present or absent.\<close>

record PackagePatch =
  patch_id :: "string option"
  patch_orderId :: "string option"
  patch_subOrderId :: "string option"
  patch_weight :: "number option"
  patch_dimensions :: "string option"
  patch_currentStatus :: "PackageStatus option"
  patch_trackingNumber :: "string option"
  patch_internalTrackingCode :: "string option"
  patch_description :: "string option"
  patch_qrCodeData :: "string option"
  patch_warehouseBin :: "string option"
  patch_productLink :: "string option"
  patch_price :: "number option"
  patch_declaredValue :: "number option"
  patch_photoUrls :: "string list option"

datatype OrderSource = Src1688 | Taobao | Shein | YesStyle | AliExpress | Other

record Order =
  id_o :: string
  customerId :: string
  customerName :: string
  customerPhone :: "string option"
  shippingAddress :: "string option"
  source :: OrderSource
  createdAt :: number
  totalItems :: number
  packages :: "Package list"
  status :: PackageStatus
  totalPrice :: "number option"
  amountPaid :: "number option"
  balanceDue :: "number option"

record TrackingEvent =
  id_e :: string
  packageId :: string
  status_e :: PackageStatus
  timestamp :: number
  userId :: string
  location :: string
  notes_e :: "string option"
  photoUrls_e :: "string list option"

record AuditLog =
  id_a :: string
  action :: string
  userId_a :: string
  userName :: string
  details :: string
  timestamp_a :: number
  severity :: string

text \<open>The part of an audit entry that callers of \<^verbatim>\<open>logAction\<close> supply
  (\<^verbatim>\<open>Omit<AuditLog, 'id' | 'timestamp'>\<close>).\<close>

record AuditEntry =
  entry_action :: string
  entry_userId :: string
  entry_userName :: string
  entry_details :: string
  entry_severity :: string

text \<open>The string value of an enum member, as a template literal prints it.\<close>

fun statusName :: "PackageStatus \<Rightarrow> string" where
  "statusName PURCHASED_FROM_SELLER = ''PURCHASED_FROM_SELLER''"
| "statusName IN_TRANSIT_TO_CHINA_AGENT = ''IN_TRANSIT_TO_CHINA_AGENT''"
| "statusName RECEIVED_IN_CHINA = ''RECEIVED_IN_CHINA''"
| "statusName QC_CHECKED = ''QC_CHECKED''"
| "statusName PACKED_CHINA = ''PACKED_CHINA''"
| "statusName READY_TO_SHIP_UAE = ''READY_TO_SHIP_UAE''"
| "statusName SHIPPED_TO_UAE = ''SHIPPED_TO_UAE''"
| "statusName ARRIVED_UAE = ''ARRIVED_UAE''"
| "statusName REPACKING = ''REPACKING''"
| "statusName READY_TO_SHIP_IRAN = ''READY_TO_SHIP_IRAN''"
| "statusName SHIPPED_TO_IRAN = ''SHIPPED_TO_IRAN''"
| "statusName ARRIVED_IRAN = ''ARRIVED_IRAN''"
| "statusName OUT_FOR_DELIVERY = ''OUT_FOR_DELIVERY''"
| "statusName DELIVERED = ''DELIVERED''"
| "statusName ISSUE_REPORTED = ''ISSUE_REPORTED''"

text \<open>
  Object spread \<^verbatim>\<open>{ ...p, ...additionalData }\<close>: a field present in the patch replaces
  the field of \<open>p\<close>. The parameter \<^verbatim>\<open>additionalData\<close> is optional; spreading
  \<^verbatim>\<open>undefined\<close> adds nothing.
\<close>

definition spread :: "Package \<Rightarrow> PackagePatch option \<Rightarrow> Package" where
  "spread p additionalData =
     (case additionalData of
        None \<Rightarrow> p
      | Some a \<Rightarrow>
          \<lparr> id_p = (case patch_id a of None \<Rightarrow> id_p p | Some v \<Rightarrow> v),
            orderId = (case patch_orderId a of None \<Rightarrow> orderId p | Some v \<Rightarrow> v),
            subOrderId = (case patch_subOrderId a of None \<Rightarrow> subOrderId p | Some v \<Rightarrow> v),
            weight = (case patch_weight a of None \<Rightarrow> weight p | Some v \<Rightarrow> Some v),
            dimensions = (case patch_dimensions a of None \<Rightarrow> dimensions p | Some v \<Rightarrow> Some v),
            currentStatus = (case patch_currentStatus a of None \<Rightarrow> currentStatus p | Some v \<Rightarrow> v),
            trackingNumber = (case patch_trackingNumber a of None \<Rightarrow> trackingNumber p | Some v \<Rightarrow> v),
            internalTrackingCode =
              (case patch_internalTrackingCode a of None \<Rightarrow> internalTrackingCode p | Some v \<Rightarrow> Some v),
            description = (case patch_description a of None \<Rightarrow> description p | Some v \<Rightarrow> v),
            qrCodeData = (case patch_qrCodeData a of None \<Rightarrow> qrCodeData p | Some v \<Rightarrow> v),
            warehouseBin = (case patch_warehouseBin a of None \<Rightarrow> warehouseBin p | Some v \<Rightarrow> Some v),
            productLink = (case patch_productLink a of None \<Rightarrow> productLink p | Some v \<Rightarrow> Some v),
            price = (case patch_price a of None \<Rightarrow> price p | Some v \<Rightarrow> Some v),
            declaredValue = (case patch_declaredValue a of None \<Rightarrow> declaredValue p | Some v \<Rightarrow> Some v),
            photoUrls = (case patch_photoUrls a of None \<Rightarrow> photoUrls p | Some v \<Rightarrow> Some v) \<rparr>)"

section \<open>The Firestore collections and their failures\<close>

text \<open>
  The four collections the service touches. A collection read by document id or scanned in
  full is an association list from document id to data, in the order \<^verbatim>\<open>getDocs\<close>
  yields the documents; the two collections that are only appended to are lists.
\<close>

record Db =
  packages_coll :: "(string \<times> Package) list"
  orders_coll :: "(string \<times> Order) list"
  tracking_events_coll :: "TrackingEvent list"
  audit_logs_coll :: "AuditLog list"

datatype collection = Packages | Orders | Tracking_events | Audit_logs

datatype firestore_call = GetDoc | GetDocs | SetDoc | UpdateDoc | AddDoc

text \<open>
  What the program cannot decide by itself: whether a Firestore call on a collection is
  rejected (and with which message), and what \<^verbatim>\<open>uuidv4()\<close> and \<^verbatim>\<open>Date.now()\<close> give for
  the tracking event and for the audit entry.
\<close>

record Env =
  fault :: "firestore_call \<Rightarrow> collection \<Rightarrow> string option"
  event_uuid :: string
  event_now :: number
  audit_uuid :: string
  audit_now :: number

text \<open>
  A thrown value is either \<^verbatim>\<open>new Error(message)\<close> of the service or the error of a
  rejected Firestore call.
\<close>

datatype error = Error string | FirestoreError string

text \<open>
  An \<^verbatim>\<open>async\<close> function: from the database to its outcome (\<open>Inl\<close> the thrown error)
  and the database it leaves behind, also when it throws.
\<close>

type_synonym 'a io = "Db \<Rightarrow> (error + 'a) \<times> Db"

definition return_io :: "'a \<Rightarrow> 'a io" where
  "return_io x = (\<lambda>db. (Inr x, db))"

definition throw_io :: "error \<Rightarrow> 'a io" where
  "throw_io e = (\<lambda>db. (Inl e, db))"

definition bind_io :: "'a io \<Rightarrow> ('a \<Rightarrow> 'b io) \<Rightarrow> 'b io" where
  "bind_io m f = (\<lambda>db. case m db of (Inl e, db') \<Rightarrow> (Inl e, db') | (Inr x, db') \<Rightarrow> f x db')"

definition catch_io :: "'a io \<Rightarrow> (error \<Rightarrow> 'a io) \<Rightarrow> 'a io" where
  "catch_io m handler =
     (\<lambda>db. case m db of (Inl e, db') \<Rightarrow> handler e db' | (Inr x, db') \<Rightarrow> (Inr x, db'))"

definition firestore :: "Env \<Rightarrow> firestore_call \<Rightarrow> collection \<Rightarrow> 'a io \<Rightarrow> 'a io" where
  "firestore env call coll act =
     (case fault env call coll of
        Some msg \<Rightarrow> throw_io (FirestoreError msg)
      | None \<Rightarrow> act)"

text \<open>
  \<^verbatim>\<open>getDoc\<close>: \<open>None\<close> is a snapshot with \<^verbatim>\<open>exists() === false\<close>. The key is the id given to
  \<^verbatim>\<open>doc(db, collection, id)\<close>, taken to be a valid reference: the SDK rejects an empty id
  before anything is read, and a collection has no document under one. The statements
  below that say which error a run throws, or that it resolves without naming the parent
  order's document, assume both ids non-empty; the empty string stands for an empty or
  missing \<^verbatim>\<open>orderId\<close>.
\<close>

definition getDoc_packages :: "Env \<Rightarrow> string \<Rightarrow> Package option io" where
  "getDoc_packages env key =
     firestore env GetDoc Packages (\<lambda>db. (Inr (map_of (packages_coll db) key), db))"

definition getDoc_orders :: "Env \<Rightarrow> string \<Rightarrow> Order option io" where
  "getDoc_orders env key =
     firestore env GetDoc Orders (\<lambda>db. (Inr (map_of (orders_coll db) key), db))"

text \<open>\<^verbatim>\<open>updateDoc\<close> changes fields of an existing document and is rejected when there is none.\<close>

definition updateDoc_packages :: "Env \<Rightarrow> string \<Rightarrow> (Package \<Rightarrow> Package) \<Rightarrow> unit io" where
  "updateDoc_packages env key f =
     firestore env UpdateDoc Packages
       (\<lambda>db. case map_of (packages_coll db) key of
                None \<Rightarrow> (Inl (FirestoreError ''not-found''), db)
              | Some d \<Rightarrow> (Inr (), db\<lparr>packages_coll := AList.update key (f d) (packages_coll db)\<rparr>))"

definition updateDoc_orders :: "Env \<Rightarrow> string \<Rightarrow> (Order \<Rightarrow> Order) \<Rightarrow> unit io" where
  "updateDoc_orders env key f =
     firestore env UpdateDoc Orders
       (\<lambda>db. case map_of (orders_coll db) key of
                None \<Rightarrow> (Inl (FirestoreError ''not-found''), db)
              | Some d \<Rightarrow> (Inr (), db\<lparr>orders_coll := AList.update key (f d) (orders_coll db)\<rparr>))"

text \<open>\<^verbatim>\<open>setDoc\<close> creates the document or replaces it.\<close>

definition setDoc_packages :: "Env \<Rightarrow> string \<Rightarrow> Package \<Rightarrow> unit io" where
  "setDoc_packages env key d =
     firestore env SetDoc Packages
       (\<lambda>db. (Inr (), db\<lparr>packages_coll := AList.update key d (packages_coll db)\<rparr>))"

definition getDocs_orders :: "Env \<Rightarrow> (string \<times> Order) list io" where
  "getDocs_orders env = firestore env GetDocs Orders (\<lambda>db. (Inr (orders_coll db), db))"

text \<open>\<^verbatim>\<open>getDocs(query(collection(db, 'packages'), where(...)))\<close> with the filter as a predicate.\<close>

definition getDocs_packages_where :: "Env \<Rightarrow> (Package \<Rightarrow> bool) \<Rightarrow> (string \<times> Package) list io" where
  "getDocs_packages_where env cond =
     firestore env GetDocs Packages
       (\<lambda>db. (Inr (filter (\<lambda>kv. cond (snd kv)) (packages_coll db)), db))"

definition addDoc_tracking_events :: "Env \<Rightarrow> TrackingEvent \<Rightarrow> unit io" where
  "addDoc_tracking_events env ev =
     firestore env AddDoc Tracking_events
       (\<lambda>db. (Inr (), db\<lparr>tracking_events_coll := tracking_events_coll db @ [ev]\<rparr>))"

definition addDoc_audit_logs :: "Env \<Rightarrow> AuditLog \<Rightarrow> unit io" where
  "addDoc_audit_logs env a =
     firestore env AddDoc Audit_logs
       (\<lambda>db. (Inr (), db\<lparr>audit_logs_coll := audit_logs_coll db @ [a]\<rparr>))"

section \<open>The data service (services/dataService.ts)\<close>

text \<open>
  \<^verbatim>\<open>logAction\<close>: the write is inside a \<^verbatim>\<open>try\<close> whose \<^verbatim>\<open>catch\<close> only prints to the console,
  so the function resolves whether the write succeeded or not.
\<close>

definition logAction :: "Env \<Rightarrow> AuditEntry \<Rightarrow> unit io" where
  "logAction env entry =
     catch_io
       (addDoc_audit_logs env
          \<lparr> id_a = audit_uuid env, action = entry_action entry, userId_a = entry_userId entry,
            userName = entry_userName entry, details = entry_details entry,
            timestamp_a = audit_now env, severity = entry_severity entry \<rparr>)
       (\<lambda>error. return_io ())"

text \<open>
  The computation of \<^verbatim>\<open>overallStatus\<close> in \<^verbatim>\<open>updatePackageStatus\<close>. It starts as
  \<^verbatim>\<open>newStatus\<close>; only when the updated list has more than one package does the loop over the
  statuses run, keeping the status of least index in \<^verbatim>\<open>Object.values(PackageStatus)\<close>.
  \<open>minStatusStep\<close> is one iteration on the pair \<^verbatim>\<open>(minIndex, overallStatus)\<close>.
\<close>

definition minStatusStep :: "PackageStatus \<Rightarrow> int \<times> PackageStatus \<Rightarrow> int \<times> PackageStatus" where
  "minStatusStep st acc =
     (let idx = indexOf statusOrder st in
      if idx \<noteq> - 1 \<and> idx < fst acc then (idx, st) else acc)"

definition overallStatus :: "PackageStatus \<Rightarrow> Package list \<Rightarrow> PackageStatus" where
  "overallStatus newStatus updatedPackages =
     (if length updatedPackages > 1
      then (let allStatuses = map currentStatus updatedPackages in
            snd (fold minStatusStep allStatuses (int (length statusOrder), newStatus)))
      else newStatus)"

text \<open>The embedded list after the update:
  \<^verbatim>\<open>packages.map(p => p.id === packageId ? { ...p, currentStatus: newStatus, ...additionalData } : p)\<close>.\<close>

definition updatedPackages_of ::
  "string \<Rightarrow> PackageStatus \<Rightarrow> PackagePatch option \<Rightarrow> Package list \<Rightarrow> Package list" where
  "updatedPackages_of pkgId newStatus additionalData ps =
     map (\<lambda>p. if id_p p = pkgId then spread (p\<lparr>currentStatus := newStatus\<rparr>) additionalData else p) ps"

text \<open>
  \<^verbatim>\<open>updatePackageStatus\<close> of services/dataService.ts. The outer \<^verbatim>\<open>catch\<close> prints and
  throws the same error again.
\<close>

definition updatePackageStatus ::
  "Env \<Rightarrow> string \<Rightarrow> PackageStatus \<Rightarrow> string \<Rightarrow> string \<Rightarrow> string \<Rightarrow> PackagePatch option \<Rightarrow> unit io" where
  "updatePackageStatus env pkgId newStatus uid notes_arg location_arg additionalData =
     catch_io
       (bind_io (getDoc_packages env pkgId) (\<lambda>pkgSnap.
          case pkgSnap of
            None \<Rightarrow> throw_io (Error ''Package not found'')
          | Some currentPkg \<Rightarrow>
              bind_io (updateDoc_packages env pkgId
                         (\<lambda>d. spread (d\<lparr>currentStatus := newStatus\<rparr>) additionalData)) (\<lambda>_.
              bind_io (getDoc_orders env (orderId currentPkg)) (\<lambda>orderSnap.
              bind_io (case orderSnap of
                         None \<Rightarrow> return_io ()
                       | Some orderData \<Rightarrow>
                           (let updatedPackages =
                                  updatedPackages_of pkgId newStatus additionalData (packages orderData)
                            in updateDoc_orders env (orderId currentPkg)
                                 (\<lambda>d. d\<lparr>packages := updatedPackages,
                                         status := overallStatus newStatus updatedPackages\<rparr>))) (\<lambda>_.
              bind_io (addDoc_tracking_events env
                         \<lparr> id_e = event_uuid env, packageId = pkgId, status_e = newStatus,
                           timestamp = event_now env, userId = uid, location = location_arg,
                           notes_e = Some notes_arg, photoUrls_e = None \<rparr>) (\<lambda>_.
              logAction env
                \<lparr> entry_action = ''STATUS_UPDATE'', entry_userId = uid, entry_userName = ''Agent'',
                  entry_details = ''Package '' @ pkgId @ '' updated to '' @ statusName newStatus,
                  entry_severity = ''INFO'' \<rparr>))))))
       (\<lambda>error. throw_io error)"

text \<open>
  \<^verbatim>\<open>getPackagesByRole\<close>: three independent \<^verbatim>\<open>if\<close>s choose the filter; its own status lists
  differ from those of the scan page. A failed query is caught and gives the empty list.
\<close>

definition chinaStatuses_workload :: "PackageStatus list" where
  "chinaStatuses_workload =
     [PURCHASED_FROM_SELLER, IN_TRANSIT_TO_CHINA_AGENT, RECEIVED_IN_CHINA, QC_CHECKED,
      PACKED_CHINA, READY_TO_SHIP_UAE]"

definition uaeStatuses_workload :: "PackageStatus list" where
  "uaeStatuses_workload = [SHIPPED_TO_UAE, ARRIVED_UAE, REPACKING, READY_TO_SHIP_IRAN]"

definition iranStatuses_workload :: "PackageStatus list" where
  "iranStatuses_workload = [SHIPPED_TO_IRAN, ARRIVED_IRAN, OUT_FOR_DELIVERY]"

definition targetStatuses :: "UserRole \<Rightarrow> PackageStatus list" where
  "targetStatuses role =
     (let t0 = [];
          t1 = (if role = CHINA_AGENT then chinaStatuses_workload else t0);
          t2 = (if role = UAE_AGENT then uaeStatuses_workload else t1);
          t3 = (if role = IRAN_AGENT then iranStatuses_workload else t2)
      in t3)"

definition getPackagesByRole :: "Env \<Rightarrow> UserRole \<Rightarrow> Package list io" where
  "getPackagesByRole env role =
     (if length (targetStatuses role) = 0 then return_io []
      else catch_io
             (bind_io (getDocs_packages_where env (\<lambda>p. currentStatus p \<in> set (targetStatuses role)))
                (\<lambda>snapshot. return_io (map snd snapshot)))
             (\<lambda>error. return_io []))"

section \<open>The second copy of the data service\<close>

text \<open>
  The repository holds a second copy of the data service, with the same imports and the
  same class, in which \<^verbatim>\<open>updatePackageStatus\<close> looks for the package inside the orders
  when the \<^verbatim>\<open>packages\<close> collection does not have it. \<open>findInOrders\<close> is its loop
  over \<^verbatim>\<open>ordersSnapshot.docs\<close>, which stops at the first order whose embedded list has a
  package of that id (\<^verbatim>\<open>order.packages.find(p => p.id === packageId)\<close>).
\<close>

fun findInOrders :: "string \<Rightarrow> (string \<times> Order) list \<Rightarrow> (Package \<times> Order) option" where
  "findInOrders pkgId [] = None"
| "findInOrders pkgId (orderDoc # docs) =
     (case find (\<lambda>p. id_p p = pkgId) (packages (snd orderDoc)) of
        Some pkg \<Rightarrow> Some (pkg, snd orderDoc)
      | None \<Rightarrow> findInOrders pkgId docs)"

text \<open>
  The first step of that copy yields the id of the parent order. An empty string is the
  falsy \<^verbatim>\<open>orderId\<close> of the tests \<^verbatim>\<open>!foundOrderId\<close> and \<^verbatim>\<open>!orderId\<close>. The guards it adds around
  the loop over the statuses (\<^verbatim>\<open>filter(Boolean)\<close>, \<^verbatim>\<open>if (status)\<close>, the length tests) are
  true of every enum member and of every list of more than one status, so the order status
  is \<open>overallStatus\<close> again.
\<close>

definition locateOrder_copy2 :: "Env \<Rightarrow> string \<Rightarrow> Package option \<Rightarrow> string io" where
  "locateOrder_copy2 env pkgId pkgSnap =
     (case pkgSnap of
        None \<Rightarrow>
          bind_io (getDocs_orders env) (\<lambda>ordersSnapshot.
            case findInOrders pkgId ordersSnapshot of
              None \<Rightarrow> throw_io (Error ''Package not found in any order'')
            | Some (foundPackage, order) \<Rightarrow>
                if id_o order = [] then throw_io (Error ''Package not found in any order'')
                else bind_io (setDoc_packages env pkgId (foundPackage\<lparr>orderId := id_o order\<rparr>))
                       (\<lambda>_. return_io (id_o order)))
      | Some currentPkg \<Rightarrow>
          if orderId currentPkg \<noteq> [] then return_io (orderId currentPkg)
          else bind_io (getDocs_orders env) (\<lambda>ordersSnapshot.
                 case findInOrders pkgId ordersSnapshot of
                   None \<Rightarrow> throw_io (Error ''Cannot find orderId for package'')
                 | Some (pkg, order) \<Rightarrow>
                     bind_io (updateDoc_packages env pkgId (\<lambda>d. d\<lparr>orderId := id_o order\<rparr>)) (\<lambda>_.
                       if id_o order = [] then throw_io (Error ''Cannot find orderId for package'')
                       else return_io (id_o order))))"

definition updatePackageStatus_copy2 ::
  "Env \<Rightarrow> string \<Rightarrow> PackageStatus \<Rightarrow> string \<Rightarrow> string \<Rightarrow> string \<Rightarrow> PackagePatch option \<Rightarrow> unit io" where
  "updatePackageStatus_copy2 env pkgId newStatus uid notes_arg location_arg additionalData =
     catch_io
       (bind_io (getDoc_packages env pkgId) (\<lambda>pkgSnap.
        bind_io (locateOrder_copy2 env pkgId pkgSnap) (\<lambda>theOrderId.
        bind_io (updateDoc_packages env pkgId
                   (\<lambda>d. spread (d\<lparr>currentStatus := newStatus\<rparr>) additionalData)) (\<lambda>_.
        bind_io (getDoc_orders env theOrderId) (\<lambda>orderSnap.
        bind_io (case orderSnap of
                   None \<Rightarrow> return_io ()
                 | Some orderData \<Rightarrow>
                     (let updatedPackages =
                            updatedPackages_of pkgId newStatus additionalData (packages orderData)
                      in updateDoc_orders env theOrderId
                           (\<lambda>d. d\<lparr>packages := updatedPackages,
                                   status := overallStatus newStatus updatedPackages\<rparr>))) (\<lambda>_.
        bind_io (addDoc_tracking_events env
                   \<lparr> id_e = event_uuid env, packageId = pkgId, status_e = newStatus,
                     timestamp = event_now env, userId = uid, location = location_arg,
                     notes_e = Some notes_arg, photoUrls_e = None \<rparr>) (\<lambda>_.
        logAction env
          \<lparr> entry_action = ''STATUS_UPDATE'', entry_userId = uid, entry_userName = ''Agent'',
            entry_details = ''Package '' @ pkgId @ '' updated to '' @ statusName newStatus,
            entry_severity = ''INFO'' \<rparr>)))))))
       (\<lambda>error. throw_io error)"

section \<open>The aggregate status as the specification words it\<close>

text \<open>
  For comparison with \<open>overallStatus\<close>, the resolver in the words of the specification:
  the ordered pipeline is the fourteen statuses without \<open>ISSUE_REPORTED\<close>; the rank of a
  status is its index there and \<open>ISSUE_REPORTED\<close> has none; an empty list is a
  \<open>MalformedOrderError\<close>; one package gives its status verbatim; several packages give the
  status of least rank among the ranked ones, and \<open>ISSUE_REPORTED\<close> when none is ranked.
\<close>

definition pipeline :: "PackageStatus list" where
  "pipeline =
     [PURCHASED_FROM_SELLER, IN_TRANSIT_TO_CHINA_AGENT, RECEIVED_IN_CHINA, QC_CHECKED,
      PACKED_CHINA, READY_TO_SHIP_UAE, SHIPPED_TO_UAE, ARRIVED_UAE, REPACKING,
      READY_TO_SHIP_IRAN, SHIPPED_TO_IRAN, ARRIVED_IRAN, OUT_FOR_DELIVERY, DELIVERED]"

fun position :: "'a list \<Rightarrow> 'a \<Rightarrow> nat option" where
  "position [] x = None"
| "position (y # ys) x = (if y = x then Some 0 else map_option Suc (position ys x))"

definition rank :: "PackageStatus \<Rightarrow> nat option" where
  "rank s = position pipeline s"

definition rank_less :: "PackageStatus \<Rightarrow> PackageStatus \<Rightarrow> bool" where
  "rank_less a b = (case (rank a, rank b) of (Some i, Some j) \<Rightarrow> i < j | _ \<Rightarrow> False)"

datatype resolve_error = MalformedOrderError

definition resolve_spec :: "Package list \<Rightarrow> resolve_error + PackageStatus" where
  "resolve_spec ps =
     (case ps of
        [] \<Rightarrow> Inl MalformedOrderError
      | [p] \<Rightarrow> Inr (currentStatus p)
      | _ \<Rightarrow>
         (case filter (\<lambda>s. rank s \<noteq> None) (map currentStatus ps) of
            [] \<Rightarrow> Inr ISSUE_REPORTED
          | s # ss \<Rightarrow> Inr (fold (\<lambda>t best. if rank_less t best then t else best) ss s)))"

text \<open>Whether the metadata of a call carries a \<^verbatim>\<open>currentStatus\<close> of its own, which the
  spread writes over the requested status.\<close>

definition patchesStatus :: "PackagePatch option \<Rightarrow> bool" where
  "patchesStatus additionalData =
     (case additionalData of None \<Rightarrow> False | Some a \<Rightarrow> patch_currentStatus a \<noteq> None)"

section \<open>Sample documents\<close>

definition mkPackage :: "string \<Rightarrow> string \<Rightarrow> PackageStatus \<Rightarrow> Package" where
  "mkPackage pid oid st =
     \<lparr> id_p = pid, orderId = oid, subOrderId = ''SUB'', weight = None, dimensions = None,
       currentStatus = st, trackingNumber = ''TN'', internalTrackingCode = None,
       description = ''item'', qrCodeData = pid, warehouseBin = None, productLink = None,
       price = None, declaredValue = None, photoUrls = None \<rparr>"

definition mkOrder :: "string \<Rightarrow> Package list \<Rightarrow> PackageStatus \<Rightarrow> Order" where
  "mkOrder oid ps st =
     \<lparr> id_o = oid, customerId = ''CUST-1'', customerName = ''Sara'', customerPhone = None,
       shippingAddress = None, source = Taobao, createdAt = 1, totalItems = 2,
       packages = ps, status = st, totalPrice = None, amountPaid = None, balanceDue = None \<rparr>"

definition mkDb :: "(string \<times> Package) list \<Rightarrow> (string \<times> Order) list \<Rightarrow> Db" where
  "mkDb ps os =
     \<lparr> packages_coll = ps, orders_coll = os, tracking_events_coll = [], audit_logs_coll = [] \<rparr>"

text \<open>An environment in which exactly the given calls are rejected, with message \<open>unavailable\<close>.\<close>

definition mkEnv :: "(firestore_call \<times> collection) list \<Rightarrow> Env" where
  "mkEnv rejected =
     \<lparr> fault = (\<lambda>call coll. if (call, coll) \<in> set rejected then Some ''unavailable'' else None),
       event_uuid = ''uuid-1'', event_now = 1000, audit_uuid = ''uuid-2'', audit_now = 1001 \<rparr>"

text \<open>Order \<open>ORD-1\<close> with its two packages, both mirrored in the \<^verbatim>\<open>packages\<close> collection.\<close>

definition db_two :: Db where
  "db_two =
     mkDb [(''PKG-1'', mkPackage ''PKG-1'' ''ORD-1'' RECEIVED_IN_CHINA),
           (''PKG-2'', mkPackage ''PKG-2'' ''ORD-1'' ARRIVED_UAE)]
          [(''ORD-1'', mkOrder ''ORD-1'' [mkPackage ''PKG-1'' ''ORD-1'' RECEIVED_IN_CHINA,
                                        mkPackage ''PKG-2'' ''ORD-1'' ARRIVED_UAE] RECEIVED_IN_CHINA)]"

text \<open>A package document whose \<^verbatim>\<open>orderId\<close> names an order that embeds only another package.\<close>

definition db_stale :: Db where
  "db_stale =
     mkDb [(''PKG-1'', mkPackage ''PKG-1'' ''ORD-1'' RECEIVED_IN_CHINA),
           (''PKG-2'', mkPackage ''PKG-2'' ''ORD-1'' QC_CHECKED)]
          [(''ORD-1'', mkOrder ''ORD-1'' [mkPackage ''PKG-2'' ''ORD-1'' QC_CHECKED] QC_CHECKED)]"


text \<open>A package that exists only inside its order, with no document of its own.\<close>

definition db_embedded_only :: Db where
  "db_embedded_only =
     mkDb []
          [(''ORD-1'', mkOrder ''ORD-1'' [mkPackage ''PKG-1'' ''ORD-1'' RECEIVED_IN_CHINA]
                         RECEIVED_IN_CHINA)]"

section \<open>Properties of the array primitives\<close>

lemma indexOf_ge: "- 1 \<le> indexOf xs x"
  by (induction xs) (auto simp: Let_def)

lemma indexOf_absent: "indexOf xs x = - 1 \<longleftrightarrow> x \<notin> set xs"
proof (induction xs)
  case Nil
  show ?case by simp
next
  case (Cons y ys)
  have "- 1 \<le> indexOf ys x" by (rule indexOf_ge)
  with Cons show ?case by (auto simp: Let_def)
qed

lemma indexOf_split:
  "x \<in> set xs \<Longrightarrow>
   \<exists>pre post. xs = pre @ x # post \<and> x \<notin> set pre \<and> indexOf xs x = int (length pre)"
proof (induction xs)
  case Nil
  then show ?case by simp
next
  case (Cons y ys)
  show ?case
  proof (cases "y = x")
    case True
    then have "y # ys = [] @ x # ys \<and> x \<notin> set [] \<and> indexOf (y # ys) x = int (length ([]::'a list))"
      by simp
    then show ?thesis by blast
  next
    case False
    with Cons.prems have "x \<in> set ys" by simp
    from Cons.IH [OF this] obtain pre post
      where p: "ys = pre @ x # post" "x \<notin> set pre" "indexOf ys x = int (length pre)"
      by blast
    from p False
    have "y # ys = (y # pre) @ x # post \<and> x \<notin> set (y # pre)
            \<and> indexOf (y # ys) x = int (length (y # pre))"
      by (simp add: Let_def)
    then show ?thesis by blast
  qed
qed

lemma first_occurrence_unique:
  "pre' @ x # post' = pre @ x # post \<Longrightarrow> x \<notin> set pre' \<Longrightarrow> x \<notin> set pre
   \<Longrightarrow> pre' = pre \<and> post' = post"
proof (induction pre' arbitrary: pre)
  case Nil
  then show ?case by (cases pre) auto
next
  case (Cons a as)
  then show ?case by (cases pre) auto
qed

lemma slice_after_prefix:"slice (pre @ x # post) (int (length pre) + 1) = post"
  by (simp add: slice_def nat_add_distrib)

section \<open>Role-transition policy: the result is the suffix after the first occurrence\<close>

lemma getAvailableNextStatuses_absent:
  "current \<notin> set (allowedStatuses role) \<Longrightarrow> getAvailableNextStatuses (Some role) current = []"
  by (simp add: getAvailableNextStatuses_def Let_def indexOf_absent)

lemma getAvailableNextStatuses_present:
  assumes "allowedStatuses role = pre @ current # post" and "current \<notin> set pre"
  shows "getAvailableNextStatuses (Some role) current = post"
proof -
  from assms(1) have mem: "current \<in> set (allowedStatuses role)" by simp
  from indexOf_split [OF mem] obtain pre' post'
    where q: "allowedStatuses role = pre' @ current # post'" "current \<notin> set pre'"
             "indexOf (allowedStatuses role) current = int (length pre')"
    by blast
  from q(1) assms(1) have "pre' @ current # post' = pre @ current # post" by simp
  from first_occurrence_unique [OF this q(2) assms(2)]
  have same: "pre' = pre \<and> post' = post" .
  have "slice (allowedStatuses role) (int (length pre) + 1) = post"
    unfolding assms(1) by (rule slice_after_prefix)
  with q(3) same show ?thesis
    by (simp add: getAvailableNextStatuses_def Let_def assms(1))
qed

text \<open>
  C3. For every role the result of \<open>getAvailableNextStatuses\<close> is the part of the role's
  list strictly after the first occurrence of the current status (the administrator's list
  is the three regional lists appended, China then UAE then Iran), and it is empty when the
  current status does not occur in the role's list, which is the case of \<open>ISSUE_REPORTED\<close>
  for every role. A China agent at \<open>RECEIVED_IN_CHINA\<close> gets exactly
  \<open>QC_CHECKED, PACKED_CHINA, READY_TO_SHIP_UAE, SHIPPED_TO_UAE\<close>, none of which is a status
  found only in the UAE or Iran lists.
\<close>

theorem C3_next_is_suffix_after_current:
  "(current \<in> set (allowedStatuses role) \<longrightarrow>
      (\<exists>pre. allowedStatuses role = pre @ current # getAvailableNextStatuses (Some role) current
             \<and> current \<notin> set pre))
   \<and> (current \<notin> set (allowedStatuses role) \<longrightarrow> getAvailableNextStatuses (Some role) current = [])
   \<and> getAvailableNextStatuses (Some role) ISSUE_REPORTED = []
   \<and> allowedStatuses ADMIN = chinaStatuses @ uaeStatuses @ iranStatuses
   \<and> getAvailableNextStatuses (Some CHINA_AGENT) RECEIVED_IN_CHINA
       = [QC_CHECKED, PACKED_CHINA, READY_TO_SHIP_UAE, SHIPPED_TO_UAE]
   \<and> (\<forall>s \<in> set (getAvailableNextStatuses (Some CHINA_AGENT) RECEIVED_IN_CHINA).
         s \<in> set chinaStatuses
         \<and> s \<notin> {ARRIVED_UAE, REPACKING, READY_TO_SHIP_IRAN, SHIPPED_TO_IRAN,
                 ARRIVED_IRAN, OUT_FOR_DELIVERY, DELIVERED})"
proof -
  have a: "current \<in> set (allowedStatuses role) \<longrightarrow>
      (\<exists>pre. allowedStatuses role = pre @ current # getAvailableNextStatuses (Some role) current
             \<and> current \<notin> set pre)"
  proof
    assume mem: "current \<in> set (allowedStatuses role)"
    from indexOf_split [OF mem] obtain pre post
      where q: "allowedStatuses role = pre @ current # post" "current \<notin> set pre"
      by blast
    from getAvailableNextStatuses_present [OF q]
    have "getAvailableNextStatuses (Some role) current = post" .
    with q show "\<exists>pre. allowedStatuses role = pre @ current # getAvailableNextStatuses (Some role) current
             \<and> current \<notin> set pre"
      by auto
  qed
  have b: "current \<notin> set (allowedStatuses role) \<longrightarrow> getAvailableNextStatuses (Some role) current = []"
    by (simp add: getAvailableNextStatuses_absent)
  have "ISSUE_REPORTED \<notin> set (allowedStatuses role)"
    by (simp add: allowedStatuses_def chinaStatuses_def uaeStatuses_def iranStatuses_def)
  then have c: "getAvailableNextStatuses (Some role) ISSUE_REPORTED = []"
    by (rule getAvailableNextStatuses_absent)
  have d: "allowedStatuses ADMIN = chinaStatuses @ uaeStatuses @ iranStatuses"
    by (simp add: allowedStatuses_def)
  have e: "getAvailableNextStatuses (Some CHINA_AGENT) RECEIVED_IN_CHINA
       = [QC_CHECKED, PACKED_CHINA, READY_TO_SHIP_UAE, SHIPPED_TO_UAE]"
    by (simp add: getAvailableNextStatuses_def allowedStatuses_def chinaStatuses_def
        slice_def Let_def)
  have f: "\<forall>s \<in> set (getAvailableNextStatuses (Some CHINA_AGENT) RECEIVED_IN_CHINA).
         s \<in> set chinaStatuses
         \<and> s \<notin> {ARRIVED_UAE, REPACKING, READY_TO_SHIP_IRAN, SHIPPED_TO_IRAN,
                 ARRIVED_IRAN, OUT_FOR_DELIVERY, DELIVERED}"
    unfolding e by (simp add: chinaStatuses_def)
  from a b c d e f show ?thesis by blast
qed

theorem C3_next_is_suffix_after_current_witness:
  "QC_CHECKED \<in> set (allowedStatuses ADMIN)
   \<and> (\<exists>pre. allowedStatuses ADMIN = pre @ QC_CHECKED # getAvailableNextStatuses (Some ADMIN) QC_CHECKED
            \<and> QC_CHECKED \<notin> set pre)
   \<and> DELIVERED \<notin> set (allowedStatuses UAE_AGENT)
   \<and> getAvailableNextStatuses (Some UAE_AGENT) DELIVERED = []
   \<and> SHIPPED_TO_UAE \<in> set (getAvailableNextStatuses (Some CHINA_AGENT) RECEIVED_IN_CHINA)
   \<and> SHIPPED_TO_UAE \<in> set chinaStatuses"
proof -
  have m1: "QC_CHECKED \<in> set (allowedStatuses ADMIN)"
    by (simp add: allowedStatuses_def chinaStatuses_def)
  have m2: "DELIVERED \<notin> set (allowedStatuses UAE_AGENT)"
    by (simp add: allowedStatuses_def uaeStatuses_def)
  note t1 = C3_next_is_suffix_after_current [of QC_CHECKED ADMIN]
  note t2 = C3_next_is_suffix_after_current [of DELIVERED UAE_AGENT]
  have m3: "SHIPPED_TO_UAE \<in> set (getAvailableNextStatuses (Some CHINA_AGENT) RECEIVED_IN_CHINA)"
    using t1 by simp
  from t1 m1 have w1: "\<exists>pre. allowedStatuses ADMIN = pre @ QC_CHECKED # getAvailableNextStatuses (Some ADMIN) QC_CHECKED
            \<and> QC_CHECKED \<notin> set pre" by blast
  from t2 m2 have w2: "getAvailableNextStatuses (Some UAE_AGENT) DELIVERED = []" by blast
  from t1 m3 have w3: "SHIPPED_TO_UAE \<in> set chinaStatuses" by blast
  from m1 w1 m2 w2 m3 w3 show ?thesis by blast
qed

section \<open>Runs of the update transaction\<close>

lemmas io_defs = bind_io_def catch_io_def return_io_def throw_io_def firestore_def
  getDoc_packages_def getDoc_orders_def updateDoc_packages_def updateDoc_orders_def
  setDoc_packages_def getDocs_orders_def getDocs_packages_where_def
  addDoc_tracking_events_def addDoc_audit_logs_def logAction_def

lemma map_of_AList_update: "map_of (AList.update k v al) k' = (if k' = k then Some v else map_of al k')"
  by (simp add: update_conv')

lemma updatePackageStatus_absent:
  assumes "fault env GetDoc Packages = None" and "map_of (packages_coll db) pkgId = None"
  shows "updatePackageStatus env pkgId newStatus uid n l additionalData db
           = (Inl (Error ''Package not found''), db)"
  using assms by (simp add: updatePackageStatus_def io_defs)

lemma updatePackageStatus_resolves:
  assumes "fault env GetDoc Packages = None" "fault env UpdateDoc Packages = None"
          "fault env GetDoc Orders = None" "fault env UpdateDoc Orders = None"
          "fault env AddDoc Tracking_events = None"
    and "map_of (packages_coll db) pkgId = Some p"
  shows "fst (updatePackageStatus env pkgId newStatus uid n l additionalData db) = Inr ()"
    and "packages_coll (snd (updatePackageStatus env pkgId newStatus uid n l additionalData db))
           = AList.update pkgId (spread (p\<lparr>currentStatus := newStatus\<rparr>) additionalData) (packages_coll db)"
    and "tracking_events_coll (snd (updatePackageStatus env pkgId newStatus uid n l additionalData db))
           = tracking_events_coll db @
             [\<lparr> id_e = event_uuid env, packageId = pkgId, status_e = newStatus,
                timestamp = event_now env, userId = uid, location = l,
                notes_e = Some n, photoUrls_e = None \<rparr>]"
    and "fault env AddDoc Audit_logs \<noteq> None \<Longrightarrow>
         audit_logs_coll (snd (updatePackageStatus env pkgId newStatus uid n l additionalData db))
           = audit_logs_coll db"
  using assms
  by (auto simp add: updatePackageStatus_def io_defs Let_def split: option.splits)

lemma updatePackageStatus_order_written:
  assumes "fault env GetDoc Packages = None" "fault env UpdateDoc Packages = None"
          "fault env GetDoc Orders = None" "fault env UpdateDoc Orders = None"
          "fault env AddDoc Tracking_events = None"
    and "map_of (packages_coll db) pkgId = Some p"
    and "map_of (orders_coll db) (orderId p) = Some ord"
  shows "orders_coll (snd (updatePackageStatus env pkgId newStatus uid n l additionalData db))
           = AList.update (orderId p)
               (ord\<lparr>packages := updatedPackages_of pkgId newStatus additionalData (packages ord),
                    status := overallStatus newStatus
                                (updatedPackages_of pkgId newStatus additionalData (packages ord))\<rparr>)
               (orders_coll db)"
  using assms
  by (simp add: updatePackageStatus_def io_defs Let_def split: option.splits)

lemma updatePackageStatus_order_rejected:
  assumes "fault env GetDoc Packages = None" "fault env UpdateDoc Packages = None"
          "fault env GetDoc Orders = None" "fault env UpdateDoc Orders = Some msg"
    and "map_of (packages_coll db) pkgId = Some p"
    and "map_of (orders_coll db) (orderId p) = Some ord"
  shows "updatePackageStatus env pkgId newStatus uid n l additionalData db
           = (Inl (FirestoreError msg),
              db\<lparr>packages_coll :=
                   AList.update pkgId (spread (p\<lparr>currentStatus := newStatus\<rparr>) additionalData)
                     (packages_coll db)\<rparr>)"
  using assms
  by (simp add: updatePackageStatus_def io_defs Let_def split: option.splits)

lemma updatePackageStatus_event_rejected:
  assumes "fault env GetDoc Packages = None" "fault env UpdateDoc Packages = None"
          "fault env GetDoc Orders = None" "fault env UpdateDoc Orders = None"
          "fault env AddDoc Tracking_events = Some msg"
    and "map_of (packages_coll db) pkgId = Some p"
    and "map_of (orders_coll db) (orderId p) = Some ord"
  shows "updatePackageStatus env pkgId newStatus uid n l additionalData db
           = (Inl (FirestoreError msg),
              db\<lparr>packages_coll :=
                   AList.update pkgId (spread (p\<lparr>currentStatus := newStatus\<rparr>) additionalData)
                     (packages_coll db),
                 orders_coll :=
                   AList.update (orderId p)
                     (ord\<lparr>packages := updatedPackages_of pkgId newStatus additionalData (packages ord),
                          status := overallStatus newStatus
                                (updatedPackages_of pkgId newStatus additionalData (packages ord))\<rparr>)
                     (orders_coll db)\<rparr>)"
  using assms
  by (simp add: updatePackageStatus_def io_defs Let_def split: option.splits)

lemma updatePackageStatus_thrown:
  assumes "fst (updatePackageStatus env pkgId newStatus uid n l additionalData db) = Inl e"
  shows "e = Error ''Package not found''
         \<or> (\<exists>call coll msg. fault env call coll = Some msg \<and> e = FirestoreError msg
               \<and> (call, coll) \<noteq> (AddDoc, Audit_logs))"
  using assms
  by (auto simp add: updatePackageStatus_def io_defs Let_def split: option.splits)

lemma updatePackageStatus_orders_after:
  "orders_coll (snd (updatePackageStatus env pkgId newStatus uid n l additionalData db)) = orders_coll db
   \<or> (\<exists>p ord. map_of (packages_coll db) pkgId = Some p \<and> map_of (orders_coll db) (orderId p) = Some ord
        \<and> orders_coll (snd (updatePackageStatus env pkgId newStatus uid n l additionalData db))
            = AList.update (orderId p)
               (ord\<lparr>packages := updatedPackages_of pkgId newStatus additionalData (packages ord),
                    status := overallStatus newStatus
                                (updatedPackages_of pkgId newStatus additionalData (packages ord))\<rparr>)
               (orders_coll db))"
  by (auto simp add: updatePackageStatus_def io_defs Let_def split: option.splits)


lemma mkEnv_fault:
  "fault (mkEnv rejected) call coll = (if (call, coll) \<in> set rejected then Some ''unavailable'' else None)"
  by (simp add: mkEnv_def)

lemma next_for_china_at_received:
  "getAvailableNextStatuses (Some CHINA_AGENT) RECEIVED_IN_CHINA
     = [QC_CHECKED, PACKED_CHINA, READY_TO_SHIP_UAE, SHIPPED_TO_UAE]"
  by (simp add: getAvailableNextStatuses_def allowedStatuses_def chinaStatuses_def slice_def Let_def)

lemma spread_keeps_requested_status:
  "\<not> patchesStatus additionalData \<Longrightarrow>
   currentStatus (spread (q\<lparr>currentStatus := newStatus\<rparr>) additionalData) = newStatus"
  by (simp add: spread_def patchesStatus_def split: option.splits)

section \<open>The update transaction checks no transition\<close>

text \<open>
  C1, as amended. \<open>updatePackageStatus\<close> has no role among its parameters and validates
  nothing: when the package document exists, the package id and the document's
  \<^verbatim>\<open>orderId\<close> are not empty, and no Firestore call of the status path is rejected, it
  resolves and stores the package document with \<^verbatim>\<open>currentStatus\<close> set to the requested
  status and the metadata spread over it, whatever status is requested and whether or not
  \<open>getAvailableNextStatuses\<close> would offer it; the stored status is the requested one
  when the metadata carries no \<^verbatim>\<open>currentStatus\<close> of its own. The policy is applied only
  where the scan page builds its buttons from \<open>getAvailableNextStatuses\<close>, and that list
  does not hold \<open>DELIVERED\<close> for a China agent at \<open>RECEIVED_IN_CHINA\<close>.
\<close>

theorem C1_status_written_without_transition_check:
  assumes "fault env GetDoc Packages = None" and "fault env UpdateDoc Packages = None"
    and "fault env GetDoc Orders = None" and "fault env UpdateDoc Orders = None"
    and "fault env AddDoc Tracking_events = None"
    and "map_of (packages_coll db) pkgId = Some p"
    and "pkgId \<noteq> []" and "orderId p \<noteq> []"
  shows "fst (updatePackageStatus env pkgId newStatus uid n l additionalData db) = Inr ()
     \<and> map_of (packages_coll (snd (updatePackageStatus env pkgId newStatus uid n l additionalData db))) pkgId
         = Some (spread (p\<lparr>currentStatus := newStatus\<rparr>) additionalData)
     \<and> (\<not> patchesStatus additionalData \<longrightarrow>
          map_option currentStatus
            (map_of (packages_coll (snd (updatePackageStatus env pkgId newStatus uid n l
                                           additionalData db))) pkgId)
            = Some newStatus)
     \<and> DELIVERED \<notin> set (getAvailableNextStatuses (Some CHINA_AGENT) RECEIVED_IN_CHINA)"
proof -
  note run = updatePackageStatus_resolves [OF assms(1-6)]
  have stored: "map_of (packages_coll (snd (updatePackageStatus env pkgId newStatus uid n l additionalData db))) pkgId
         = Some (spread (p\<lparr>currentStatus := newStatus\<rparr>) additionalData)"
    unfolding run(2) by (simp add: map_of_AList_update)
  have requested: "\<not> patchesStatus additionalData \<longrightarrow>
          map_option currentStatus
            (map_of (packages_coll (snd (updatePackageStatus env pkgId newStatus uid n l
                                           additionalData db))) pkgId)
            = Some newStatus"
    unfolding stored by (simp add: spread_keeps_requested_status)
  have "DELIVERED \<notin> set (getAvailableNextStatuses (Some CHINA_AGENT) RECEIVED_IN_CHINA)"
    unfolding next_for_china_at_received by simp
  with stored requested run(1) show ?thesis by blast
qed

theorem C1_status_written_without_transition_check_witness:
  "map_of (packages_coll db_two) ''PKG-1'' = Some (mkPackage ''PKG-1'' ''ORD-1'' RECEIVED_IN_CHINA)
   \<and> ''PKG-1'' \<noteq> [] \<and> orderId (mkPackage ''PKG-1'' ''ORD-1'' RECEIVED_IN_CHINA) \<noteq> []
   \<and> \<not> patchesStatus None
   \<and> fst (updatePackageStatus (mkEnv []) ''PKG-1'' ARRIVED_IRAN ''agent-cn'' ''note'' ''device'' None db_two)
       = Inr ()
   \<and> map_of (packages_coll (snd (updatePackageStatus (mkEnv []) ''PKG-1'' ARRIVED_IRAN ''agent-cn'' ''note''
                                    ''device'' None db_two))) ''PKG-1''
       = Some (mkPackage ''PKG-1'' ''ORD-1'' ARRIVED_IRAN)
   \<and> map_option currentStatus
        (map_of (packages_coll (snd (updatePackageStatus (mkEnv []) ''PKG-1'' ARRIVED_IRAN ''agent-cn''
                                       ''note'' ''device'' None db_two))) ''PKG-1'')
       = Some ARRIVED_IRAN"
proof -
  have ne: "''PKG-1'' \<noteq> []" "orderId (mkPackage ''PKG-1'' ''ORD-1'' RECEIVED_IN_CHINA) \<noteq> []"
    by (simp_all add: mkPackage_def)
  have np: "\<not> patchesStatus None" by (simp add: patchesStatus_def)
  have h: "map_of (packages_coll db_two) ''PKG-1'' = Some (mkPackage ''PKG-1'' ''ORD-1'' RECEIVED_IN_CHINA)"
    by (simp add: db_two_def mkDb_def)
  have f: "fault (mkEnv []) GetDoc Packages = None" "fault (mkEnv []) UpdateDoc Packages = None"
    "fault (mkEnv []) GetDoc Orders = None" "fault (mkEnv []) UpdateDoc Orders = None"
    "fault (mkEnv []) AddDoc Tracking_events = None"
    by (simp_all add: mkEnv_fault)
  have s: "spread (mkPackage ''PKG-1'' ''ORD-1'' RECEIVED_IN_CHINA\<lparr>currentStatus := ARRIVED_IRAN\<rparr>) None
            = mkPackage ''PKG-1'' ''ORD-1'' ARRIVED_IRAN"
    by (simp add: spread_def mkPackage_def)
  have c: "currentStatus (mkPackage ''PKG-1'' ''ORD-1'' ARRIVED_IRAN) = ARRIVED_IRAN"
    by (simp add: mkPackage_def)
  from C1_status_written_without_transition_check [OF f h ne,
      of ARRIVED_IRAN "''agent-cn''" "''note''" "''device''" None]
  show ?thesis using h s ne np c by simp
qed

text \<open>
  C1 as stated fails: a China agent's request of \<open>DELIVERED\<close> for a package at
  \<open>RECEIVED_IN_CHINA\<close> is outside the allowed next statuses, yet the transaction resolves
  and the package document holds \<open>DELIVERED\<close> afterwards.
\<close>

theorem C1_delivered_from_received_counterexample:
  "DELIVERED \<notin> set (getAvailableNextStatuses (Some CHINA_AGENT) RECEIVED_IN_CHINA)
   \<and> map_option currentStatus (map_of (packages_coll db_two) ''PKG-1'') = Some RECEIVED_IN_CHINA
   \<and> fst (updatePackageStatus (mkEnv []) ''PKG-1'' DELIVERED ''agent-cn'' ''note'' ''device'' None db_two)
       = Inr ()
   \<and> map_option currentStatus
        (map_of (packages_coll (snd (updatePackageStatus (mkEnv []) ''PKG-1'' DELIVERED ''agent-cn'' ''note''
                                       ''device'' None db_two))) ''PKG-1'')
       = Some DELIVERED"
proof -
  have h: "map_of (packages_coll db_two) ''PKG-1'' = Some (mkPackage ''PKG-1'' ''ORD-1'' RECEIVED_IN_CHINA)"
    by (simp add: db_two_def mkDb_def)
  have f: "fault (mkEnv []) GetDoc Packages = None" "fault (mkEnv []) UpdateDoc Packages = None"
    "fault (mkEnv []) GetDoc Orders = None" "fault (mkEnv []) UpdateDoc Orders = None"
    "fault (mkEnv []) AddDoc Tracking_events = None"
    by (simp_all add: mkEnv_fault)
  note run = updatePackageStatus_resolves [OF f h, of DELIVERED "''agent-cn''" "''note''" "''device''" None]
  have a: "DELIVERED \<notin> set (getAvailableNextStatuses (Some CHINA_AGENT) RECEIVED_IN_CHINA)"
    unfolding next_for_china_at_received by simp
  have b: "map_option currentStatus (map_of (packages_coll db_two) ''PKG-1'') = Some RECEIVED_IN_CHINA"
    unfolding h by (simp add: mkPackage_def)
  have c: "map_option currentStatus
        (map_of (packages_coll (snd (updatePackageStatus (mkEnv []) ''PKG-1'' DELIVERED ''agent-cn'' ''note''
                                       ''device'' None db_two))) ''PKG-1'')
       = Some DELIVERED"
    unfolding run(2) by (simp add: map_of_AList_update spread_def)
  from a b c run(1) show ?thesis by blast
qed

lemma sample_calls_accepted:
  "fault (mkEnv []) GetDoc Packages = None" "fault (mkEnv []) UpdateDoc Packages = None"
  "fault (mkEnv []) GetDoc Orders = None" "fault (mkEnv []) UpdateDoc Orders = None"
  "fault (mkEnv []) AddDoc Tracking_events = None"
  by (simp_all add: mkEnv_fault)


section \<open>An order without packages\<close>




lemma db_two_docs:
  "map_of (packages_coll db_two) ''PKG-1'' = Some (mkPackage ''PKG-1'' ''ORD-1'' RECEIVED_IN_CHINA)"
  "map_of (orders_coll db_two) ''ORD-1''
     = Some (mkOrder ''ORD-1'' [mkPackage ''PKG-1'' ''ORD-1'' RECEIVED_IN_CHINA,
                                mkPackage ''PKG-2'' ''ORD-1'' ARRIVED_UAE] RECEIVED_IN_CHINA)"
  "map_of (orders_coll db_two) (orderId (mkPackage ''PKG-1'' ''ORD-1'' RECEIVED_IN_CHINA))
     = Some (mkOrder ''ORD-1'' [mkPackage ''PKG-1'' ''ORD-1'' RECEIVED_IN_CHINA,
                                mkPackage ''PKG-2'' ''ORD-1'' ARRIVED_UAE] RECEIVED_IN_CHINA)"
  by (simp_all add: db_two_def mkDb_def mkPackage_def)

section \<open>Rejected writes\<close>

text \<open>
  C8, as amended. For a package id that is not empty and a package document whose
  \<^verbatim>\<open>orderId\<close> is not empty, what the transaction throws is either its own
  \<open>Package not found\<close> or the very error of the rejected Firestore call, unchanged, with
  nothing that tells which steps succeeded; the writes made before the rejected call
  remain. A rejected write of the audit entry is never thrown: \<open>logAction\<close> catches it
  and the transaction resolves without the entry.
\<close>

theorem C8_errors_rethrown_audit_failure_swallowed:
  "(pkgId \<noteq> [] \<and> map_option orderId (map_of (packages_coll db) pkgId) \<noteq> Some []
      \<and> fst (updatePackageStatus env pkgId newStatus uid n l additionalData db) = Inl e \<longrightarrow>
      e = Error ''Package not found''
      \<or> (\<exists>call coll msg. fault env call coll = Some msg \<and> e = FirestoreError msg
            \<and> (call, coll) \<noteq> (AddDoc, Audit_logs)))
   \<and> (fault env GetDoc Packages = None \<and> fault env UpdateDoc Packages = None
        \<and> fault env GetDoc Orders = None \<and> fault env UpdateDoc Orders = None
        \<and> fault env AddDoc Tracking_events = None \<and> fault env AddDoc Audit_logs = Some msg1
        \<and> map_of (packages_coll db) pkgId = Some p
        \<and> pkgId \<noteq> [] \<and> orderId p \<noteq> [] \<longrightarrow>
      fst (updatePackageStatus env pkgId newStatus uid n l additionalData db) = Inr ()
      \<and> audit_logs_coll (snd (updatePackageStatus env pkgId newStatus uid n l additionalData db))
          = audit_logs_coll db)
   \<and> (fault env GetDoc Packages = None \<and> fault env UpdateDoc Packages = None
        \<and> fault env GetDoc Orders = None \<and> fault env UpdateDoc Orders = Some msg2
        \<and> map_of (packages_coll db) pkgId = Some p
        \<and> map_of (orders_coll db) (orderId p) = Some ord \<longrightarrow>
      updatePackageStatus env pkgId newStatus uid n l additionalData db
        = (Inl (FirestoreError msg2),
           db\<lparr>packages_coll :=
                AList.update pkgId (spread (p\<lparr>currentStatus := newStatus\<rparr>) additionalData)
                  (packages_coll db)\<rparr>))
   \<and> (fault env GetDoc Packages = None \<and> fault env UpdateDoc Packages = None
        \<and> fault env GetDoc Orders = None \<and> fault env UpdateDoc Orders = None
        \<and> fault env AddDoc Tracking_events = Some msg3
        \<and> map_of (packages_coll db) pkgId = Some p
        \<and> map_of (orders_coll db) (orderId p) = Some ord \<longrightarrow>
      updatePackageStatus env pkgId newStatus uid n l additionalData db
        = (Inl (FirestoreError msg3),
           db\<lparr>packages_coll :=
                AList.update pkgId (spread (p\<lparr>currentStatus := newStatus\<rparr>) additionalData)
                  (packages_coll db),
              orders_coll :=
                AList.update (orderId p)
                  (ord\<lparr>packages := updatedPackages_of pkgId newStatus additionalData (packages ord),
                       status := overallStatus newStatus
                                   (updatedPackages_of pkgId newStatus additionalData (packages ord))\<rparr>)
                  (orders_coll db)\<rparr>))"
proof (intro conjI impI)
  assume "pkgId \<noteq> [] \<and> map_option orderId (map_of (packages_coll db) pkgId) \<noteq> Some []
      \<and> fst (updatePackageStatus env pkgId newStatus uid n l additionalData db) = Inl e"
  then have "fst (updatePackageStatus env pkgId newStatus uid n l additionalData db) = Inl e"
    by simp
  then show "e = Error ''Package not found''
      \<or> (\<exists>call coll msg. fault env call coll = Some msg \<and> e = FirestoreError msg
            \<and> (call, coll) \<noteq> (AddDoc, Audit_logs))"
    by (rule updatePackageStatus_thrown)
next
  assume h: "fault env GetDoc Packages = None \<and> fault env UpdateDoc Packages = None
        \<and> fault env GetDoc Orders = None \<and> fault env UpdateDoc Orders = None
        \<and> fault env AddDoc Tracking_events = None \<and> fault env AddDoc Audit_logs = Some msg1
        \<and> map_of (packages_coll db) pkgId = Some p
        \<and> pkgId \<noteq> [] \<and> orderId p \<noteq> []"
  then show "fst (updatePackageStatus env pkgId newStatus uid n l additionalData db) = Inr ()"
    by (simp add: updatePackageStatus_resolves(1))
  from h show "audit_logs_coll (snd (updatePackageStatus env pkgId newStatus uid n l additionalData db))
          = audit_logs_coll db"
    by (simp add: updatePackageStatus_resolves(4))
next
  assume "fault env GetDoc Packages = None \<and> fault env UpdateDoc Packages = None
        \<and> fault env GetDoc Orders = None \<and> fault env UpdateDoc Orders = Some msg2
        \<and> map_of (packages_coll db) pkgId = Some p
        \<and> map_of (orders_coll db) (orderId p) = Some ord"
  then show "updatePackageStatus env pkgId newStatus uid n l additionalData db
        = (Inl (FirestoreError msg2),
           db\<lparr>packages_coll :=
                AList.update pkgId (spread (p\<lparr>currentStatus := newStatus\<rparr>) additionalData)
                  (packages_coll db)\<rparr>)"
    by (simp add: updatePackageStatus_order_rejected)
next
  assume "fault env GetDoc Packages = None \<and> fault env UpdateDoc Packages = None
        \<and> fault env GetDoc Orders = None \<and> fault env UpdateDoc Orders = None
        \<and> fault env AddDoc Tracking_events = Some msg3
        \<and> map_of (packages_coll db) pkgId = Some p
        \<and> map_of (orders_coll db) (orderId p) = Some ord"
  then show "updatePackageStatus env pkgId newStatus uid n l additionalData db
        = (Inl (FirestoreError msg3),
           db\<lparr>packages_coll :=
                AList.update pkgId (spread (p\<lparr>currentStatus := newStatus\<rparr>) additionalData)
                  (packages_coll db),
              orders_coll :=
                AList.update (orderId p)
                  (ord\<lparr>packages := updatedPackages_of pkgId newStatus additionalData (packages ord),
                       status := overallStatus newStatus
                                   (updatedPackages_of pkgId newStatus additionalData (packages ord))\<rparr>)
                  (orders_coll db)\<rparr>)"
    by (simp add: updatePackageStatus_event_rejected)
qed


theorem C8_errors_rethrown_audit_failure_swallowed_witness:
  "''PKG-1'' \<noteq> []
   \<and> map_option orderId (map_of (packages_coll db_two) ''PKG-1'') = Some ''ORD-1''
   \<and> map_option orderId (map_of (packages_coll db_two) ''PKG-1'') \<noteq> Some []
   \<and> orderId (mkPackage ''PKG-1'' ''ORD-1'' RECEIVED_IN_CHINA) \<noteq> []
   \<and> fst (updatePackageStatus (mkEnv [(UpdateDoc, Orders)]) ''PKG-1'' QC_CHECKED ''agent-cn'' ''note''
          ''device'' None db_two) = Inl (FirestoreError ''unavailable'')
   \<and> (\<exists>call coll msg. fault (mkEnv [(UpdateDoc, Orders)]) call coll = Some msg
          \<and> FirestoreError ''unavailable'' = FirestoreError msg
          \<and> (call, coll) \<noteq> (AddDoc, Audit_logs))
   \<and> fault (mkEnv [(AddDoc, Audit_logs)]) AddDoc Audit_logs = Some ''unavailable''
   \<and> fst (updatePackageStatus (mkEnv [(AddDoc, Audit_logs)]) ''PKG-1'' QC_CHECKED ''agent-cn'' ''note''
            ''device'' None db_two) = Inr ()
   \<and> audit_logs_coll (snd (updatePackageStatus (mkEnv [(AddDoc, Audit_logs)]) ''PKG-1'' QC_CHECKED
                              ''agent-cn'' ''note'' ''device'' None db_two)) = []
   \<and> fault (mkEnv [(UpdateDoc, Orders)]) UpdateDoc Orders = Some ''unavailable''
   \<and> map_option currentStatus
        (map_of (packages_coll (snd (updatePackageStatus (mkEnv [(UpdateDoc, Orders)]) ''PKG-1'' QC_CHECKED
                                       ''agent-cn'' ''note'' ''device'' None db_two))) ''PKG-1'')
       = Some QC_CHECKED
   \<and> fault (mkEnv [(AddDoc, Tracking_events)]) AddDoc Tracking_events = Some ''unavailable''
   \<and> fst (updatePackageStatus (mkEnv [(AddDoc, Tracking_events)]) ''PKG-1'' QC_CHECKED ''agent-cn''
            ''note'' ''device'' None db_two) = Inl (FirestoreError ''unavailable'')"
proof -
  let ?envO = "mkEnv [(UpdateDoc, Orders)]"
  let ?envA = "mkEnv [(AddDoc, Audit_logs)]"
  let ?envE = "mkEnv [(AddDoc, Tracking_events)]"
  let ?p = "mkPackage ''PKG-1'' ''ORD-1'' RECEIVED_IN_CHINA"
  let ?ord = "mkOrder ''ORD-1'' [mkPackage ''PKG-1'' ''ORD-1'' RECEIVED_IN_CHINA,
                                mkPackage ''PKG-2'' ''ORD-1'' ARRIVED_UAE] RECEIVED_IN_CHINA"
  note tO = C8_errors_rethrown_audit_failure_swallowed
      [where env = ?envO and pkgId = "''PKG-1''" and newStatus = QC_CHECKED and uid = "''agent-cn''"
         and n = "''note''" and l = "''device''" and additionalData = None and db = db_two
         and e = "FirestoreError ''unavailable''" and ?msg1.0 = "''unavailable''" and p = ?p
         and ?msg2.0 = "''unavailable''" and ord = ?ord and ?msg3.0 = "''unavailable''"]
  note tA = C8_errors_rethrown_audit_failure_swallowed
      [where env = ?envA and pkgId = "''PKG-1''" and newStatus = QC_CHECKED and uid = "''agent-cn''"
         and n = "''note''" and l = "''device''" and additionalData = None and db = db_two
         and e = "FirestoreError ''unavailable''" and ?msg1.0 = "''unavailable''" and p = ?p
         and ?msg2.0 = "''unavailable''" and ord = ?ord and ?msg3.0 = "''unavailable''"]
  note tE = C8_errors_rethrown_audit_failure_swallowed
      [where env = ?envE and pkgId = "''PKG-1''" and newStatus = QC_CHECKED and uid = "''agent-cn''"
         and n = "''note''" and l = "''device''" and additionalData = None and db = db_two
         and e = "FirestoreError ''unavailable''" and ?msg1.0 = "''unavailable''" and p = ?p
         and ?msg2.0 = "''unavailable''" and ord = ?ord and ?msg3.0 = "''unavailable''"]
  have runO: "updatePackageStatus ?envO ''PKG-1'' QC_CHECKED ''agent-cn'' ''note'' ''device'' None db_two
        = (Inl (FirestoreError ''unavailable''),
           db_two\<lparr>packages_coll :=
                AList.update ''PKG-1'' (spread (?p\<lparr>currentStatus := QC_CHECKED\<rparr>) None)
                  (packages_coll db_two)\<rparr>)"
    using tO by (simp add: mkEnv_fault db_two_docs)
  have w1: "fst (updatePackageStatus ?envO ''PKG-1'' QC_CHECKED ''agent-cn'' ''note'' ''device'' None db_two)
              = Inl (FirestoreError ''unavailable'')"
    unfolding runO by simp
  have ids: "''PKG-1'' \<noteq> []"
    "map_option orderId (map_of (packages_coll db_two) ''PKG-1'') = Some ''ORD-1''"
    "map_option orderId (map_of (packages_coll db_two) ''PKG-1'') \<noteq> Some []"
    "orderId ?p \<noteq> []"
    by (simp_all add: db_two_docs mkPackage_def)
  from tO w1 ids have w2: "\<exists>call coll msg. fault ?envO call coll = Some msg
          \<and> FirestoreError ''unavailable'' = FirestoreError msg
          \<and> (call, coll) \<noteq> (AddDoc, Audit_logs)"
    by blast
  have w3: "fst (updatePackageStatus ?envA ''PKG-1'' QC_CHECKED ''agent-cn'' ''note'' ''device'' None db_two)
              = Inr ()
            \<and> audit_logs_coll (snd (updatePackageStatus ?envA ''PKG-1'' QC_CHECKED
                              ''agent-cn'' ''note'' ''device'' None db_two)) = audit_logs_coll db_two"
    using tA ids(4) by (simp add: mkEnv_fault db_two_docs)
  have w4: "map_option currentStatus
        (map_of (packages_coll (snd (updatePackageStatus ?envO ''PKG-1'' QC_CHECKED
                                       ''agent-cn'' ''note'' ''device'' None db_two))) ''PKG-1'')
       = Some QC_CHECKED"
    unfolding runO by (simp add: map_of_AList_update spread_def)
  have w5: "fst (updatePackageStatus ?envE ''PKG-1'' QC_CHECKED ''agent-cn''
            ''note'' ''device'' None db_two) = Inl (FirestoreError ''unavailable'')"
    using tE by (simp add: mkEnv_fault db_two_docs)
  have w6: "audit_logs_coll db_two = []" by (simp add: db_two_def mkDb_def)
  from w1 w2 w3 w4 w5 w6 ids show ?thesis by (simp add: mkEnv_fault)
qed

text \<open>
  C8 as stated fails. With the audit write rejected the transaction resolves and no entry
  is stored: the error is swallowed. With the order write rejected, and with the append of
  the tracking event rejected, the caller gets the same Firestore error although in the
  first run only the package was written and in the second the order as well: the error
  does not tell which steps succeeded.
\<close>

theorem C8_swallowed_and_undistinguished_counterexample:
  "fst (updatePackageStatus (mkEnv [(AddDoc, Audit_logs)]) ''PKG-1'' QC_CHECKED ''agent-cn'' ''note''
          ''device'' None db_two) = Inr ()
   \<and> audit_logs_coll (snd (updatePackageStatus (mkEnv [(AddDoc, Audit_logs)]) ''PKG-1'' QC_CHECKED
                              ''agent-cn'' ''note'' ''device'' None db_two)) = []
   \<and> fst (updatePackageStatus (mkEnv [(UpdateDoc, Orders)]) ''PKG-1'' QC_CHECKED ''agent-cn'' ''note''
            ''device'' None db_two) = Inl (FirestoreError ''unavailable'')
   \<and> map_option currentStatus
        (map_of (packages_coll (snd (updatePackageStatus (mkEnv [(UpdateDoc, Orders)]) ''PKG-1'' QC_CHECKED
                                       ''agent-cn'' ''note'' ''device'' None db_two))) ''PKG-1'')
       = Some QC_CHECKED
   \<and> map_option status
        (map_of (orders_coll (snd (updatePackageStatus (mkEnv [(UpdateDoc, Orders)]) ''PKG-1'' QC_CHECKED
                                     ''agent-cn'' ''note'' ''device'' None db_two))) ''ORD-1'')
       = Some RECEIVED_IN_CHINA
   \<and> fst (updatePackageStatus (mkEnv [(AddDoc, Tracking_events)]) ''PKG-1'' QC_CHECKED ''agent-cn''
            ''note'' ''device'' None db_two) = Inl (FirestoreError ''unavailable'')
   \<and> map_option status
        (map_of (orders_coll (snd (updatePackageStatus (mkEnv [(AddDoc, Tracking_events)]) ''PKG-1''
                                     QC_CHECKED ''agent-cn'' ''note'' ''device'' None db_two))) ''ORD-1'')
       = Some QC_CHECKED"
proof -
  let ?envO = "mkEnv [(UpdateDoc, Orders)]"
  let ?envA = "mkEnv [(AddDoc, Audit_logs)]"
  let ?envE = "mkEnv [(AddDoc, Tracking_events)]"
  have fA: "fault ?envA GetDoc Packages = None" "fault ?envA UpdateDoc Packages = None"
    "fault ?envA GetDoc Orders = None" "fault ?envA UpdateDoc Orders = None"
    "fault ?envA AddDoc Tracking_events = None"
    by (simp_all add: mkEnv_fault)
  have fA': "fault ?envA AddDoc Audit_logs \<noteq> None" by (simp add: mkEnv_fault)
  have fO: "fault ?envO GetDoc Packages = None" "fault ?envO UpdateDoc Packages = None"
    "fault ?envO GetDoc Orders = None" "fault ?envO UpdateDoc Orders = Some ''unavailable''"
    by (simp_all add: mkEnv_fault)
  have fE: "fault ?envE GetDoc Packages = None" "fault ?envE UpdateDoc Packages = None"
    "fault ?envE GetDoc Orders = None" "fault ?envE UpdateDoc Orders = None"
    "fault ?envE AddDoc Tracking_events = Some ''unavailable''"
    by (simp_all add: mkEnv_fault)
  note rA = updatePackageStatus_resolves [OF fA db_two_docs(1),
      of QC_CHECKED "''agent-cn''" "''note''" "''device''" None]
  note rO = updatePackageStatus_order_rejected [OF fO db_two_docs(1) db_two_docs(3),
      of QC_CHECKED "''agent-cn''" "''note''" "''device''" None]
  note rE = updatePackageStatus_event_rejected [OF fE db_two_docs(1) db_two_docs(3),
      of QC_CHECKED "''agent-cn''" "''note''" "''device''" None]
  have a: "audit_logs_coll (snd (updatePackageStatus ?envA ''PKG-1'' QC_CHECKED
                              ''agent-cn'' ''note'' ''device'' None db_two)) = []"
    using rA(4) [OF fA'] by (simp add: db_two_def mkDb_def)
  have b: "fst (updatePackageStatus ?envO ''PKG-1'' QC_CHECKED ''agent-cn'' ''note''
            ''device'' None db_two) = Inl (FirestoreError ''unavailable'')"
    unfolding rO by simp
  have c: "map_option currentStatus
        (map_of (packages_coll (snd (updatePackageStatus ?envO ''PKG-1'' QC_CHECKED
                                       ''agent-cn'' ''note'' ''device'' None db_two))) ''PKG-1'')
       = Some QC_CHECKED"
    unfolding rO by (simp add: map_of_AList_update spread_def)
  have d: "map_option status
        (map_of (orders_coll (snd (updatePackageStatus ?envO ''PKG-1'' QC_CHECKED
                                     ''agent-cn'' ''note'' ''device'' None db_two))) ''ORD-1'')
       = Some RECEIVED_IN_CHINA"
    unfolding rO by (simp add: db_two_docs mkOrder_def)
  have e: "fst (updatePackageStatus ?envE ''PKG-1'' QC_CHECKED ''agent-cn''
            ''note'' ''device'' None db_two) = Inl (FirestoreError ''unavailable'')"
    unfolding rE by simp
  have f: "map_option status
        (map_of (orders_coll (snd (updatePackageStatus ?envE ''PKG-1''
                                     QC_CHECKED ''agent-cn'' ''note'' ''device'' None db_two))) ''ORD-1'')
       = Some QC_CHECKED"
    unfolding rE
    by (simp add: map_of_AList_update mkPackage_def mkOrder_def updatedPackages_of_def spread_def
        overallStatus_def minStatusStep_def statusOrder_def Let_def)
  from rA(1) a b c d e f show ?thesis by blast
qed

lemma updatedPackages_of_length:
  "length (updatedPackages_of pkgId newStatus additionalData ps) = length ps"
  by (simp add: updatedPackages_of_def)

lemma updatedPackages_of_nth:
  "i < length ps \<Longrightarrow>
   updatedPackages_of pkgId newStatus additionalData ps ! i
     = (if id_p (ps ! i) = pkgId then spread ((ps ! i)\<lparr>currentStatus := newStatus\<rparr>) additionalData
        else ps ! i)"
  by (simp add: updatedPackages_of_def)

section \<open>The other embedded packages\<close>

text \<open>
  C9. Whatever the run of the transaction (resolved or thrown), every order document is
  still there afterwards, its embedded list has the same length, and every entry whose id
  is not the updated package id is the same entry at the same place. When the order write
  is reached (the package document exists, it names this order, and no call up to the
  tracking event is rejected), the entries with the updated id are the old entry with the
  new status and the metadata spread over it.
\<close>

theorem C9_other_embedded_packages_untouched:
  assumes "map_of (orders_coll db) k = Some ord"
  shows "\<exists>ord'. map_of (orders_coll (snd (updatePackageStatus env pkgId newStatus uid n l additionalData db))) k
                  = Some ord'
     \<and> length (packages ord') = length (packages ord)
     \<and> (\<forall>i < length (packages ord).
           id_p (packages ord ! i) \<noteq> pkgId \<longrightarrow> packages ord' ! i = packages ord ! i)
     \<and> (fault env GetDoc Packages = None \<and> fault env UpdateDoc Packages = None
          \<and> fault env GetDoc Orders = None \<and> fault env UpdateDoc Orders = None
          \<and> fault env AddDoc Tracking_events = None
          \<and> map_option orderId (map_of (packages_coll db) pkgId) = Some k \<longrightarrow>
        (\<forall>i < length (packages ord).
           id_p (packages ord ! i) = pkgId \<longrightarrow>
           packages ord' ! i = spread ((packages ord ! i)\<lparr>currentStatus := newStatus\<rparr>) additionalData))"
proof -
  let ?db' = "snd (updatePackageStatus env pkgId newStatus uid n l additionalData db)"
  let ?ups = "updatedPackages_of pkgId newStatus additionalData (packages ord)"
  let ?new = "ord\<lparr>packages := ?ups, status := overallStatus newStatus ?ups\<rparr>"
  from updatePackageStatus_orders_after [of env pkgId newStatus uid n l additionalData db]
  consider (same) "orders_coll ?db' = orders_coll db"
    | (written) p ord0 where "map_of (packages_coll db) pkgId = Some p"
        "map_of (orders_coll db) (orderId p) = Some ord0"
        "orders_coll ?db' = AList.update (orderId p)
               (ord0\<lparr>packages := updatedPackages_of pkgId newStatus additionalData (packages ord0),
                    status := overallStatus newStatus
                                (updatedPackages_of pkgId newStatus additionalData (packages ord0))\<rparr>)
               (orders_coll db)"
    by blast
  then consider (kept) "map_of (orders_coll ?db') k = Some ord" | (replaced) "map_of (orders_coll ?db') k = Some ?new"
  proof cases
    case same
    with assms have "map_of (orders_coll ?db') k = Some ord" by simp
    then show ?thesis by (rule that(1))
  next
    case written
    show ?thesis
    proof (cases "k = orderId p")
      case True
      with written assms have "ord0 = ord" by simp
      with written True have "map_of (orders_coll ?db') k = Some ?new"
        by (simp add: map_of_AList_update)
      then show ?thesis by (rule that(2))
    next
      case False
      with written assms have "map_of (orders_coll ?db') k = Some ord"
        by (simp add: map_of_AList_update)
      then show ?thesis by (rule that(1))
    qed
  qed
  then have frame: "\<exists>ord'. map_of (orders_coll ?db') k = Some ord'
     \<and> length (packages ord') = length (packages ord)
     \<and> (\<forall>i < length (packages ord).
           id_p (packages ord ! i) \<noteq> pkgId \<longrightarrow> packages ord' ! i = packages ord ! i)"
  proof cases
    case kept
    then show ?thesis by simp
  next
    case replaced
    then show ?thesis by (simp add: updatedPackages_of_length updatedPackages_of_nth)
  qed
  show ?thesis
  proof (cases "fault env GetDoc Packages = None \<and> fault env UpdateDoc Packages = None
          \<and> fault env GetDoc Orders = None \<and> fault env UpdateDoc Orders = None
          \<and> fault env AddDoc Tracking_events = None
          \<and> map_option orderId (map_of (packages_coll db) pkgId) = Some k")
    case False
    with frame show ?thesis by blast
  next
    case True
    then obtain p where p: "map_of (packages_coll db) pkgId = Some p" "orderId p = k" by auto
    from assms p have o: "map_of (orders_coll db) (orderId p) = Some ord" by simp
    from True have f: "fault env GetDoc Packages = None" "fault env UpdateDoc Packages = None"
      "fault env GetDoc Orders = None" "fault env UpdateDoc Orders = None"
      "fault env AddDoc Tracking_events = None" by simp_all
    from updatePackageStatus_order_written [OF f p(1) o, of newStatus uid n l additionalData] p(2)
    have "map_of (orders_coll ?db') k = Some ?new" by (simp add: map_of_AList_update)
    then show ?thesis by (simp add: updatedPackages_of_length updatedPackages_of_nth)
  qed
qed


theorem C9_other_embedded_packages_untouched_witness:
  "map_of (orders_coll db_two) ''ORD-1''
     = Some (mkOrder ''ORD-1'' [mkPackage ''PKG-1'' ''ORD-1'' RECEIVED_IN_CHINA,
                                mkPackage ''PKG-2'' ''ORD-1'' ARRIVED_UAE] RECEIVED_IN_CHINA)
   \<and> map_option orderId (map_of (packages_coll db_two) ''PKG-1'') = Some ''ORD-1''
   \<and> (\<exists>ord'. map_of (orders_coll (snd (updatePackageStatus (mkEnv []) ''PKG-1'' QC_CHECKED ''agent-cn''
                                          ''note'' ''device'' None db_two))) ''ORD-1'' = Some ord'
         \<and> length (packages ord') = 2
         \<and> packages ord' ! 1 = mkPackage ''PKG-2'' ''ORD-1'' ARRIVED_UAE
         \<and> packages ord' ! 0 = mkPackage ''PKG-1'' ''ORD-1'' QC_CHECKED)"
proof -
  let ?ord = "mkOrder ''ORD-1'' [mkPackage ''PKG-1'' ''ORD-1'' RECEIVED_IN_CHINA,
                                mkPackage ''PKG-2'' ''ORD-1'' ARRIVED_UAE] RECEIVED_IN_CHINA"
  have ps: "packages ?ord = [mkPackage ''PKG-1'' ''ORD-1'' RECEIVED_IN_CHINA,
                            mkPackage ''PKG-2'' ''ORD-1'' ARRIVED_UAE]"
    by (simp add: mkOrder_def)
  have link: "map_option orderId (map_of (packages_coll db_two) ''PKG-1'') = Some ''ORD-1''"
    by (simp add: db_two_docs mkPackage_def)
  from C9_other_embedded_packages_untouched [OF db_two_docs(2),
      of "mkEnv []" "''PKG-1''" QC_CHECKED "''agent-cn''" "''note''" "''device''" None]
  obtain ord' where
    a: "map_of (orders_coll (snd (updatePackageStatus (mkEnv []) ''PKG-1'' QC_CHECKED ''agent-cn''
                                          ''note'' ''device'' None db_two))) ''ORD-1'' = Some ord'"
    and b: "length (packages ord') = length (packages ?ord)"
    and c: "\<forall>i < length (packages ?ord).
           id_p (packages ?ord ! i) \<noteq> ''PKG-1'' \<longrightarrow> packages ord' ! i = packages ?ord ! i"
    and d: "fault (mkEnv []) GetDoc Packages = None \<and> fault (mkEnv []) UpdateDoc Packages = None
          \<and> fault (mkEnv []) GetDoc Orders = None \<and> fault (mkEnv []) UpdateDoc Orders = None
          \<and> fault (mkEnv []) AddDoc Tracking_events = None
          \<and> map_option orderId (map_of (packages_coll db_two) ''PKG-1'') = Some ''ORD-1'' \<longrightarrow>
        (\<forall>i < length (packages ?ord).
           id_p (packages ?ord ! i) = ''PKG-1'' \<longrightarrow>
           packages ord' ! i = spread ((packages ?ord ! i)\<lparr>currentStatus := QC_CHECKED\<rparr>) None)"
    by blast
  from b have b': "length (packages ord') = 2" by (simp add: ps)
  from c [unfolded ps, rule_format, of 1]
  have c': "packages ord' ! 1 = mkPackage ''PKG-2'' ''ORD-1'' ARRIVED_UAE"
    by (simp add: mkPackage_def)
  from d link have "\<forall>i < length (packages ?ord).
           id_p (packages ?ord ! i) = ''PKG-1'' \<longrightarrow>
           packages ord' ! i = spread ((packages ?ord ! i)\<lparr>currentStatus := QC_CHECKED\<rparr>) None"
    by (simp add: mkEnv_fault)
  from this [unfolded ps, rule_format, of 0]
  have d': "packages ord' ! 0 = mkPackage ''PKG-1'' ''ORD-1'' QC_CHECKED"
    by (simp add: mkPackage_def spread_def)
  from a b' c' d' db_two_docs(2) link show ?thesis by blast
qed

lemma targetStatuses_cases:
  "targetStatuses CHINA_AGENT = chinaStatuses_workload"
  "targetStatuses UAE_AGENT = uaeStatuses_workload"
  "targetStatuses IRAN_AGENT = iranStatuses_workload"
  "targetStatuses ADMIN = []"
  "targetStatuses CUSTOMER = []"
  by (simp_all add: targetStatuses_def)

lemma getPackagesByRole_agent:
  assumes "targetStatuses role \<noteq> []"
  shows "getPackagesByRole env role db
           = (Inr (case fault env GetDocs Packages of
                     Some msg \<Rightarrow> []
                   | None \<Rightarrow> filter (\<lambda>p. currentStatus p \<in> set (targetStatuses role))
                               (map snd (packages_coll db))), db)"
  using assms
  by (simp add: getPackagesByRole_def io_defs filter_map comp_def split: option.splits)

section \<open>The workload of a role\<close>

text \<open>
  C10. \<open>getPackagesByRole\<close> gives a status filter to the three agent roles only: six China
  statuses, four UAE statuses, three Iran statuses. For one of these roles the result is
  the package documents whose status is in the role's filter (and the empty list when the
  query is rejected); for every other role, \<open>ADMIN\<close> and \<open>CUSTOMER\<close> included, it is the
  empty list and nothing is read.
\<close>

theorem C10_workload_only_for_agent_roles:
  "(role \<notin> {CHINA_AGENT, UAE_AGENT, IRAN_AGENT} \<longrightarrow> getPackagesByRole env role db = (Inr [], db))
   \<and> getPackagesByRole env ADMIN db = (Inr [], db)
   \<and> getPackagesByRole env CUSTOMER db = (Inr [], db)
   \<and> targetStatuses CHINA_AGENT
        = [PURCHASED_FROM_SELLER, IN_TRANSIT_TO_CHINA_AGENT, RECEIVED_IN_CHINA, QC_CHECKED,
           PACKED_CHINA, READY_TO_SHIP_UAE]
   \<and> targetStatuses UAE_AGENT = [SHIPPED_TO_UAE, ARRIVED_UAE, REPACKING, READY_TO_SHIP_IRAN]
   \<and> targetStatuses IRAN_AGENT = [SHIPPED_TO_IRAN, ARRIVED_IRAN, OUT_FOR_DELIVERY]
   \<and> (role \<in> {CHINA_AGENT, UAE_AGENT, IRAN_AGENT} \<longrightarrow>
        getPackagesByRole env role db
          = (Inr (case fault env GetDocs Packages of
                    Some msg \<Rightarrow> []
                  | None \<Rightarrow> filter (\<lambda>p. currentStatus p \<in> set (targetStatuses role))
                              (map snd (packages_coll db))), db))"
proof -
  have other: "role \<notin> {CHINA_AGENT, UAE_AGENT, IRAN_AGENT} \<longrightarrow> getPackagesByRole env role db = (Inr [], db)"
    by (cases role) (simp_all add: getPackagesByRole_def targetStatuses_cases return_io_def)
  have admin: "getPackagesByRole env ADMIN db = (Inr [], db)"
    by (simp add: getPackagesByRole_def targetStatuses_cases return_io_def)
  have customer: "getPackagesByRole env CUSTOMER db = (Inr [], db)"
    by (simp add: getPackagesByRole_def targetStatuses_cases return_io_def)
  have lists: "targetStatuses CHINA_AGENT
        = [PURCHASED_FROM_SELLER, IN_TRANSIT_TO_CHINA_AGENT, RECEIVED_IN_CHINA, QC_CHECKED,
           PACKED_CHINA, READY_TO_SHIP_UAE]"
    "targetStatuses UAE_AGENT = [SHIPPED_TO_UAE, ARRIVED_UAE, REPACKING, READY_TO_SHIP_IRAN]"
    "targetStatuses IRAN_AGENT = [SHIPPED_TO_IRAN, ARRIVED_IRAN, OUT_FOR_DELIVERY]"
    by (simp_all add: targetStatuses_cases chinaStatuses_workload_def uaeStatuses_workload_def
        iranStatuses_workload_def)
  have agent: "role \<in> {CHINA_AGENT, UAE_AGENT, IRAN_AGENT} \<longrightarrow>
        getPackagesByRole env role db
          = (Inr (case fault env GetDocs Packages of
                    Some msg \<Rightarrow> []
                  | None \<Rightarrow> filter (\<lambda>p. currentStatus p \<in> set (targetStatuses role))
                              (map snd (packages_coll db))), db)"
  proof
    assume "role \<in> {CHINA_AGENT, UAE_AGENT, IRAN_AGENT}"
    with lists have "targetStatuses role \<noteq> []" by auto
    then show "getPackagesByRole env role db
          = (Inr (case fault env GetDocs Packages of
                    Some msg \<Rightarrow> []
                  | None \<Rightarrow> filter (\<lambda>p. currentStatus p \<in> set (targetStatuses role))
                              (map snd (packages_coll db))), db)"
      by (rule getPackagesByRole_agent)
  qed
  from other admin customer lists agent show ?thesis by blast
qed

theorem C10_workload_only_for_agent_roles_witness:
  "ADMIN \<notin> {CHINA_AGENT, UAE_AGENT, IRAN_AGENT}
   \<and> getPackagesByRole (mkEnv []) ADMIN db_two = (Inr [], db_two)
   \<and> UAE_AGENT \<in> {CHINA_AGENT, UAE_AGENT, IRAN_AGENT}
   \<and> getPackagesByRole (mkEnv []) UAE_AGENT db_two
       = (Inr [mkPackage ''PKG-2'' ''ORD-1'' ARRIVED_UAE], db_two)
   \<and> getPackagesByRole (mkEnv [(GetDocs, Packages)]) UAE_AGENT db_two = (Inr [], db_two)"
proof -
  note t1 = C10_workload_only_for_agent_roles [of ADMIN "mkEnv []" db_two]
  note t2 = C10_workload_only_for_agent_roles [of UAE_AGENT "mkEnv []" db_two]
  note t3 = C10_workload_only_for_agent_roles [of UAE_AGENT "mkEnv [(GetDocs, Packages)]" db_two]
  have a: "getPackagesByRole (mkEnv []) ADMIN db_two = (Inr [], db_two)"
    using t1 by simp
  have b: "getPackagesByRole (mkEnv []) UAE_AGENT db_two
       = (Inr [mkPackage ''PKG-2'' ''ORD-1'' ARRIVED_UAE], db_two)"
    using t2 by (simp add: mkEnv_fault db_two_def mkDb_def mkPackage_def)
  have c: "getPackagesByRole (mkEnv [(GetDocs, Packages)]) UAE_AGENT db_two = (Inr [], db_two)"
    using t3 by (simp add: mkEnv_fault)
  from a b c show ?thesis by simp
qed

lemma rank_code: "rank s = (if s = ISSUE_REPORTED then None else Some (nat (indexOf statusOrder s)))"
  by (cases s) (simp_all add: rank_def pipeline_def statusOrder_def)

lemma indexOf_statusOrder_range: "0 \<le> indexOf statusOrder s \<and> indexOf statusOrder s < 15"
  by (cases s) (simp_all add: statusOrder_def)

lemma indexOf_statusOrder_inj: "indexOf statusOrder s = indexOf statusOrder t \<Longrightarrow> s = t"
  by (cases s; cases t) (simp_all add: statusOrder_def)

lemma indexOf_statusOrder_issue: "indexOf statusOrder s = 14 \<longleftrightarrow> s = ISSUE_REPORTED"
  by (cases s) (simp_all add: statusOrder_def)

lemma fold_minStatusStep:
  "fold minStatusStep xs (m, b) = (m', b') \<Longrightarrow>
     (\<forall>x \<in> set xs. m' \<le> indexOf statusOrder x) \<and> m' \<le> m
     \<and> ((m', b') = (m, b) \<or> (b' \<in> set xs \<and> indexOf statusOrder b' = m'))"
proof (induction xs arbitrary: m b)
  case Nil
  then show ?case by simp
next
  case (Cons x xs)
  obtain m1 b1 where step: "minStatusStep x (m, b) = (m1, b1)" by (cases "minStatusStep x (m, b)")
  with Cons.prems have rest: "fold minStatusStep xs (m1, b1) = (m', b')" by simp
  note ih = Cons.IH [OF rest]
  have r: "0 \<le> indexOf statusOrder x" using indexOf_statusOrder_range [of x] by simp
  from step have s1: "m1 \<le> m \<and> m1 \<le> indexOf statusOrder x
      \<and> ((m1, b1) = (m, b) \<or> (b1 = x \<and> indexOf statusOrder x = m1))"
    using r by (auto simp: minStatusStep_def Let_def split: if_splits)
  from ih s1 show ?case by auto
qed

text \<open>With more than one package the loop ends on a status of the list of least index.\<close>

lemma overallStatus_least:
  assumes "1 < length ps"
  shows "overallStatus newStatus ps \<in> set (map currentStatus ps)"
    and "\<forall>x \<in> set (map currentStatus ps).
           indexOf statusOrder (overallStatus newStatus ps) \<le> indexOf statusOrder x"
proof -
  let ?xs = "map currentStatus ps"
  obtain m' b' where run: "fold minStatusStep ?xs (15, newStatus) = (m', b')"
    by (cases "fold minStatusStep ?xs (15, newStatus)")
  from assms have code: "overallStatus newStatus ps = b'"
    using run by (simp add: overallStatus_def Let_def statusOrder_def)
  from assms obtain p q rest where ps: "ps = p # q # rest"
    by (cases ps; cases "tl ps") auto
  note inv = fold_minStatusStep [OF run]
  have "indexOf statusOrder (currentStatus p) < 15" using indexOf_statusOrder_range by simp
  moreover from inv ps have "m' \<le> indexOf statusOrder (currentStatus p)" by simp
  ultimately have "m' \<noteq> 15" by simp
  with inv have b_in: "b' \<in> set ?xs" and b_idx: "indexOf statusOrder b' = m'" by auto
  from b_in code show "overallStatus newStatus ps \<in> set (map currentStatus ps)" by simp
  from inv b_idx code
  show "\<forall>x \<in> set (map currentStatus ps).
           indexOf statusOrder (overallStatus newStatus ps) \<le> indexOf statusOrder x"
    by simp
qed

lemma fold_pick_least:
  "fold (\<lambda>t best. if rank_less t best then t else best) ss s = c \<Longrightarrow>
   \<forall>t \<in> set (s # ss). rank t \<noteq> None \<Longrightarrow>
     c \<in> set (s # ss) \<and> (\<forall>t \<in> set (s # ss). \<not> rank_less t c)"
proof (induction ss arbitrary: s)
  case Nil
  then show ?case by (auto simp: rank_less_def split: option.splits)
next
  case (Cons a ss)
  let ?s1 = "if rank_less a s then a else s"
  from Cons.prems(1) have rest: "fold (\<lambda>t best. if rank_less t best then t else best) ss ?s1 = c"
    by simp
  from Cons.prems(2) have ranked: "\<forall>t \<in> set (?s1 # ss). rank t \<noteq> None" by auto
  note ih = Cons.IH [OF rest ranked]
  from Cons.prems(2) obtain i j where ij: "rank a = Some i" "rank s = Some j" by auto
  from ih have cin: "c \<in> set (?s1 # ss)" and least: "\<forall>t \<in> set (?s1 # ss). \<not> rank_less t c"
    by blast+
  from cin Cons.prems(2) obtain k where k: "rank c = Some k" by (auto split: if_splits)
  from least have l1: "\<not> rank_less ?s1 c" by simp
  have "\<not> rank_less a c \<and> \<not> rank_less s c"
    using l1 ij k by (auto simp: rank_less_def split: if_splits)
  with cin least show ?case by (auto split: if_splits)
qed

lemma overallStatus_refines_resolve_spec:
  assumes "1 < length ps"
  shows "resolve_spec ps = Inr (overallStatus newStatus ps)"
proof -
  let ?xs = "map currentStatus ps"
  let ?b = "overallStatus newStatus ps"
  from assms obtain p q rest where ps: "ps = p # q # rest"
    by (cases ps; cases "tl ps") auto
  note b_in = overallStatus_least(1) [OF assms, of newStatus]
  note b_least = overallStatus_least(2) [OF assms, of newStatus]
  let ?ranked = "filter (\<lambda>s. rank s \<noteq> None) ?xs"
  show ?thesis
  proof (cases ?ranked)
    case Nil
    then have "\<forall>x \<in> set ?xs. rank x = None" by (auto simp: filter_empty_conv)
    with b_in have "rank ?b = None" by blast
    then have "?b = ISSUE_REPORTED" by (simp add: rank_code split: if_splits)
    with Nil ps show ?thesis by (simp add: resolve_spec_def)
  next
    case (Cons s ss)
    define c where "c = fold (\<lambda>t best. if rank_less t best then t else best) ss s"
    have ranked_set: "set (s # ss) = {x \<in> set ?xs. rank x \<noteq> None}"
      using arg_cong [OF Cons, of set] by simp
    then have all_ranked: "\<forall>t \<in> set (s # ss). rank t \<noteq> None" by blast
    from fold_pick_least [OF c_def [symmetric] all_ranked]
    have c_in: "c \<in> set (s # ss)" and c_least: "\<forall>t \<in> set (s # ss). \<not> rank_less t c" by blast+
    from c_in ranked_set have c_xs: "c \<in> set ?xs" and c_ranked: "rank c \<noteq> None"
      by blast+
    from c_ranked have c_ni: "c \<noteq> ISSUE_REPORTED" by (auto simp: rank_code)
    from b_least c_xs have le: "indexOf statusOrder ?b \<le> indexOf statusOrder c" by blast
    have "indexOf statusOrder c \<noteq> 14" using c_ni indexOf_statusOrder_issue by blast
    with indexOf_statusOrder_range [of c] have "indexOf statusOrder c < 14" by simp
    with le have "indexOf statusOrder ?b \<noteq> 14" by simp
    then have b_ni: "?b \<noteq> ISSUE_REPORTED" using indexOf_statusOrder_issue by blast
    then have "rank ?b \<noteq> None" by (simp add: rank_code)
    with b_in ranked_set have "?b \<in> set (s # ss)" by blast
    with c_least have "\<not> rank_less ?b c" by blast
    with b_ni c_ni have "\<not> nat (indexOf statusOrder ?b) < nat (indexOf statusOrder c)"
      by (simp add: rank_less_def rank_code)
    with le indexOf_statusOrder_range [of ?b] indexOf_statusOrder_range [of c]
    have "indexOf statusOrder ?b = indexOf statusOrder c" by arith
    then have "?b = c" by (rule indexOf_statusOrder_inj)
    with Cons ps c_def show ?thesis by (simp add: resolve_spec_def)
  qed
qed

lemma overallStatus_issue_iff:
  assumes "1 < length ps"
  shows "overallStatus newStatus ps = ISSUE_REPORTED
           \<longleftrightarrow> (\<forall>p \<in> set ps. currentStatus p = ISSUE_REPORTED)"
proof
  assume i: "overallStatus newStatus ps = ISSUE_REPORTED"
  show "\<forall>p \<in> set ps. currentStatus p = ISSUE_REPORTED"
  proof
    fix p assume "p \<in> set ps"
    with overallStatus_least(2) [OF assms, of newStatus] i
    have "indexOf statusOrder ISSUE_REPORTED \<le> indexOf statusOrder (currentStatus p)" by simp
    moreover have "indexOf statusOrder ISSUE_REPORTED = 14" by (simp add: indexOf_statusOrder_issue)
    ultimately have "indexOf statusOrder (currentStatus p) = 14"
      using indexOf_statusOrder_range [of "currentStatus p"] by simp
    then show "currentStatus p = ISSUE_REPORTED" by (simp add: indexOf_statusOrder_issue)
  qed
next
  assume "\<forall>p \<in> set ps. currentStatus p = ISSUE_REPORTED"
  with overallStatus_least(1) [OF assms, of newStatus]
  show "overallStatus newStatus ps = ISSUE_REPORTED" by auto
qed

lemma db_stale_docs:
  "map_of (packages_coll db_stale) ''PKG-1'' = Some (mkPackage ''PKG-1'' ''ORD-1'' RECEIVED_IN_CHINA)"
  "map_of (orders_coll db_stale) (orderId (mkPackage ''PKG-1'' ''ORD-1'' RECEIVED_IN_CHINA))
     = Some (mkOrder ''ORD-1'' [mkPackage ''PKG-2'' ''ORD-1'' QC_CHECKED] QC_CHECKED)"
  by (simp_all add: db_stale_def mkDb_def mkPackage_def)

section \<open>The order status computed by the transaction\<close>

text \<open>
  C4, as amended. For every list of more than one package, \<open>overallStatus\<close> is the status
  of least rank among the packages' statuses, where \<open>ISSUE_REPORTED\<close> counts only when every
  package has it: the result is a status of the list, no ranked package has a smaller rank,
  it is \<open>ISSUE_REPORTED\<close> exactly when all packages are, and it is what the resolver of the
  specification returns. For a list of one package (or none) the result is the requested
  new status, which is that package's status when the two agree; they do agree on the
  updated list when its single package is the one being updated and the metadata carries
  no \<^verbatim>\<open>currentStatus\<close> of its own.
\<close>

theorem C4_overallStatus_least_rank:
  "(1 < length ps \<longrightarrow>
       resolve_spec ps = Inr (overallStatus newStatus ps)
     \<and> overallStatus newStatus ps \<in> set (map currentStatus ps)
     \<and> (\<forall>p \<in> set ps. currentStatus p \<noteq> ISSUE_REPORTED \<longrightarrow>
            overallStatus newStatus ps \<noteq> ISSUE_REPORTED
          \<and> \<not> rank_less (currentStatus p) (overallStatus newStatus ps))
     \<and> (overallStatus newStatus ps = ISSUE_REPORTED
          \<longleftrightarrow> (\<forall>p \<in> set ps. currentStatus p = ISSUE_REPORTED)))
   \<and> (length ps \<le> 1 \<longrightarrow> overallStatus newStatus ps = newStatus)
   \<and> (currentStatus q = newStatus \<longrightarrow> resolve_spec [q] = Inr (overallStatus newStatus [q]))
   \<and> (id_p q = pkgId \<and> \<not> patchesStatus additionalData \<longrightarrow>
        resolve_spec (updatedPackages_of pkgId newStatus additionalData [q])
          = Inr (overallStatus newStatus (updatedPackages_of pkgId newStatus additionalData [q])))"
proof -
  have many: "1 < length ps \<longrightarrow>
       resolve_spec ps = Inr (overallStatus newStatus ps)
     \<and> overallStatus newStatus ps \<in> set (map currentStatus ps)
     \<and> (\<forall>p \<in> set ps. currentStatus p \<noteq> ISSUE_REPORTED \<longrightarrow>
            overallStatus newStatus ps \<noteq> ISSUE_REPORTED
          \<and> \<not> rank_less (currentStatus p) (overallStatus newStatus ps))
     \<and> (overallStatus newStatus ps = ISSUE_REPORTED
          \<longleftrightarrow> (\<forall>p \<in> set ps. currentStatus p = ISSUE_REPORTED))"
  proof
    assume len: "1 < length ps"
    let ?b = "overallStatus newStatus ps"
    note iss = overallStatus_issue_iff [OF len, of newStatus]
    have least: "\<forall>p \<in> set ps. currentStatus p \<noteq> ISSUE_REPORTED \<longrightarrow>
            ?b \<noteq> ISSUE_REPORTED \<and> \<not> rank_less (currentStatus p) ?b"
    proof (intro ballI impI)
      fix p assume p: "p \<in> set ps" and ni: "currentStatus p \<noteq> ISSUE_REPORTED"
      from p ni iss have b_ni: "?b \<noteq> ISSUE_REPORTED" by blast
      from overallStatus_least(2) [OF len, of newStatus] p
      have "indexOf statusOrder ?b \<le> indexOf statusOrder (currentStatus p)" by simp
      with b_ni ni indexOf_statusOrder_range [of ?b]
      have "\<not> rank_less (currentStatus p) ?b"
        by (simp add: rank_less_def rank_code)
      with b_ni show "?b \<noteq> ISSUE_REPORTED \<and> \<not> rank_less (currentStatus p) ?b" by simp
    qed
    from overallStatus_refines_resolve_spec [OF len, of newStatus]
      overallStatus_least(1) [OF len, of newStatus] least iss
    show "resolve_spec ps = Inr ?b
     \<and> ?b \<in> set (map currentStatus ps)
     \<and> (\<forall>p \<in> set ps. currentStatus p \<noteq> ISSUE_REPORTED \<longrightarrow>
            ?b \<noteq> ISSUE_REPORTED \<and> \<not> rank_less (currentStatus p) ?b)
     \<and> (?b = ISSUE_REPORTED \<longleftrightarrow> (\<forall>p \<in> set ps. currentStatus p = ISSUE_REPORTED))"
      by blast
  qed
  have few: "length ps \<le> 1 \<longrightarrow> overallStatus newStatus ps = newStatus"
    by (simp add: overallStatus_def)
  have one: "currentStatus q = newStatus \<longrightarrow> resolve_spec [q] = Inr (overallStatus newStatus [q])"
    by (simp add: overallStatus_def resolve_spec_def)
  have updated: "id_p q = pkgId \<and> \<not> patchesStatus additionalData \<longrightarrow>
        resolve_spec (updatedPackages_of pkgId newStatus additionalData [q])
          = Inr (overallStatus newStatus (updatedPackages_of pkgId newStatus additionalData [q]))"
    by (simp add: updatedPackages_of_def overallStatus_def resolve_spec_def
        spread_keeps_requested_status)
  from many few one updated show ?thesis by blast
qed

theorem C4_overallStatus_least_rank_witness:
  "1 < length [mkPackage ''PKG-1'' ''ORD-1'' ARRIVED_UAE, mkPackage ''PKG-2'' ''ORD-1'' RECEIVED_IN_CHINA]
   \<and> overallStatus ARRIVED_UAE
        [mkPackage ''PKG-1'' ''ORD-1'' ARRIVED_UAE, mkPackage ''PKG-2'' ''ORD-1'' RECEIVED_IN_CHINA]
       = RECEIVED_IN_CHINA
   \<and> overallStatus ISSUE_REPORTED
        [mkPackage ''PKG-1'' ''ORD-1'' ISSUE_REPORTED, mkPackage ''PKG-2'' ''ORD-1'' ISSUE_REPORTED]
       = ISSUE_REPORTED
   \<and> overallStatus QC_CHECKED
        [mkPackage ''PKG-1'' ''ORD-1'' ISSUE_REPORTED, mkPackage ''PKG-2'' ''ORD-1'' QC_CHECKED]
       \<noteq> ISSUE_REPORTED
   \<and> length [mkPackage ''PKG-1'' ''ORD-1'' QC_CHECKED] \<le> 1
   \<and> overallStatus QC_CHECKED [mkPackage ''PKG-1'' ''ORD-1'' QC_CHECKED] = QC_CHECKED
   \<and> currentStatus (mkPackage ''PKG-1'' ''ORD-1'' QC_CHECKED) = QC_CHECKED
   \<and> resolve_spec [mkPackage ''PKG-1'' ''ORD-1'' QC_CHECKED]
       = Inr (overallStatus QC_CHECKED [mkPackage ''PKG-1'' ''ORD-1'' QC_CHECKED])
   \<and> id_p (mkPackage ''PKG-1'' ''ORD-1'' QC_CHECKED) = ''PKG-1''
   \<and> \<not> patchesStatus None
   \<and> resolve_spec (updatedPackages_of ''PKG-1'' DELIVERED None [mkPackage ''PKG-1'' ''ORD-1'' QC_CHECKED])
       = Inr (overallStatus DELIVERED
                (updatedPackages_of ''PKG-1'' DELIVERED None [mkPackage ''PKG-1'' ''ORD-1'' QC_CHECKED]))
   \<and> overallStatus DELIVERED
        (updatedPackages_of ''PKG-1'' DELIVERED None [mkPackage ''PKG-1'' ''ORD-1'' QC_CHECKED])
       = DELIVERED"
proof -
  let ?two = "[mkPackage ''PKG-1'' ''ORD-1'' ARRIVED_UAE, mkPackage ''PKG-2'' ''ORD-1'' RECEIVED_IN_CHINA]"
  let ?iss = "[mkPackage ''PKG-1'' ''ORD-1'' ISSUE_REPORTED, mkPackage ''PKG-2'' ''ORD-1'' ISSUE_REPORTED]"
  let ?mix = "[mkPackage ''PKG-1'' ''ORD-1'' ISSUE_REPORTED, mkPackage ''PKG-2'' ''ORD-1'' QC_CHECKED]"
  let ?q = "mkPackage ''PKG-1'' ''ORD-1'' QC_CHECKED"
  note t1 = C4_overallStatus_least_rank [of ?two ARRIVED_UAE ?q]
  note t2 = C4_overallStatus_least_rank [of ?iss ISSUE_REPORTED ?q]
  note t3 = C4_overallStatus_least_rank [of ?mix QC_CHECKED ?q]
  note t4 = C4_overallStatus_least_rank [of "[?q]" QC_CHECKED ?q]
  have st: "currentStatus ?q = QC_CHECKED" by (simp add: mkPackage_def)
  have r1: "resolve_spec ?two = Inr RECEIVED_IN_CHINA"
    by (simp add: resolve_spec_def mkPackage_def rank_def rank_less_def pipeline_def)
  from t1 r1 have a: "overallStatus ARRIVED_UAE ?two = RECEIVED_IN_CHINA" by simp
  have "\<forall>p \<in> set ?iss. currentStatus p = ISSUE_REPORTED" by (simp add: mkPackage_def)
  with t2 have b: "overallStatus ISSUE_REPORTED ?iss = ISSUE_REPORTED" by simp
  have "mkPackage ''PKG-2'' ''ORD-1'' QC_CHECKED \<in> set ?mix
        \<and> currentStatus (mkPackage ''PKG-2'' ''ORD-1'' QC_CHECKED) \<noteq> ISSUE_REPORTED"
    by (simp add: mkPackage_def)
  with t3 have c: "overallStatus QC_CHECKED ?mix \<noteq> ISSUE_REPORTED" by (simp del: set_simps) blast
  from t4 have d: "overallStatus QC_CHECKED [?q] = QC_CHECKED" by simp
  from t4 st have e: "resolve_spec [?q] = Inr (overallStatus QC_CHECKED [?q])" by blast
  note t5 = C4_overallStatus_least_rank [where ps = "[?q]" and newStatus = DELIVERED and q = ?q
      and pkgId = "''PKG-1''" and additionalData = None]
  have i: "id_p ?q = ''PKG-1''" by (simp add: mkPackage_def)
  have np: "\<not> patchesStatus None" by (simp add: patchesStatus_def)
  from t5 i np
  have f: "resolve_spec (updatedPackages_of ''PKG-1'' DELIVERED None [?q])
             = Inr (overallStatus DELIVERED (updatedPackages_of ''PKG-1'' DELIVERED None [?q]))"
    by blast
  have "length (updatedPackages_of ''PKG-1'' DELIVERED None [?q]) \<le> 1"
    by (simp add: updatedPackages_of_def)
  with C4_overallStatus_least_rank [where ps = "updatedPackages_of ''PKG-1'' DELIVERED None [?q]"
      and newStatus = DELIVERED]
  have g: "overallStatus DELIVERED (updatedPackages_of ''PKG-1'' DELIVERED None [?q]) = DELIVERED"
    by blast
  from a b c d e st i np f g show ?thesis by simp
qed

text \<open>
  C4 as stated fails on a list of one package: the result is the requested new status,
  not the status of the package in the list. The list is the one the transaction computes
  when the package document \<open>PKG-1\<close> names an order that embeds only \<open>PKG-2\<close>.
\<close>

theorem C4_single_package_counterexample:
  "updatedPackages_of ''PKG-1'' DELIVERED None [mkPackage ''PKG-2'' ''ORD-1'' QC_CHECKED]
     = [mkPackage ''PKG-2'' ''ORD-1'' QC_CHECKED]
   \<and> currentStatus (mkPackage ''PKG-2'' ''ORD-1'' QC_CHECKED) = QC_CHECKED
   \<and> resolve_spec [mkPackage ''PKG-2'' ''ORD-1'' QC_CHECKED] = Inr QC_CHECKED
   \<and> overallStatus DELIVERED [mkPackage ''PKG-2'' ''ORD-1'' QC_CHECKED] = DELIVERED"
  by (simp add: updatedPackages_of_def mkPackage_def resolve_spec_def overallStatus_def)


section \<open>The consistency of order status and embedded list\<close>

text \<open>
  C5, as amended. After a run that reaches the order write (the package document exists,
  its parent order exists, no call up to the tracking event is rejected), the order holds
  the updated list, and its status is what the resolver of the specification gives on
  that list whenever the list has more than one package, or the order embeds the updated
  package and the metadata carries no \<^verbatim>\<open>currentStatus\<close> of its own.
\<close>

theorem C5_order_status_resolved_from_updated_list:
  assumes "fault env GetDoc Packages = None" and "fault env UpdateDoc Packages = None"
    and "fault env GetDoc Orders = None" and "fault env UpdateDoc Orders = None"
    and "fault env AddDoc Tracking_events = None"
    and "map_of (packages_coll db) pkgId = Some p"
    and "map_of (orders_coll db) (orderId p) = Some ord"
    and "1 < length (packages ord)
         \<or> ((\<exists>q \<in> set (packages ord). id_p q = pkgId) \<and> \<not> patchesStatus additionalData)"
  shows "fst (updatePackageStatus env pkgId newStatus uid n l additionalData db) = Inr ()
     \<and> (\<exists>ord'. map_of (orders_coll (snd (updatePackageStatus env pkgId newStatus uid n l
                                           additionalData db))) (orderId p) = Some ord'
           \<and> packages ord' = updatedPackages_of pkgId newStatus additionalData (packages ord)
           \<and> resolve_spec (packages ord') = Inr (status ord'))"
proof -
  let ?ups = "updatedPackages_of pkgId newStatus additionalData (packages ord)"
  let ?new = "ord\<lparr>packages := ?ups, status := overallStatus newStatus ?ups\<rparr>"
  note ok = updatePackageStatus_resolves(1) [OF assms(1-6), of newStatus uid n l additionalData]
  from updatePackageStatus_order_written [OF assms(1-7), of newStatus uid n l additionalData]
  have stored: "map_of (orders_coll (snd (updatePackageStatus env pkgId newStatus uid n l
                                           additionalData db))) (orderId p) = Some ?new"
    by (simp add: map_of_AList_update)
  have "resolve_spec ?ups = Inr (overallStatus newStatus ?ups)"
  proof (cases "1 < length (packages ord)")
    case True
    then have "1 < length ?ups" by (simp add: updatedPackages_of_length)
    then show ?thesis by (rule overallStatus_refines_resolve_spec)
  next
    case False
    with assms(8) obtain q where q: "q \<in> set (packages ord)" "id_p q = pkgId"
      and np: "\<not> patchesStatus additionalData" by blast
    from False q(1) have "packages ord = [q]"
      by (cases "packages ord"; cases "tl (packages ord)") auto
    with q(2) have ups: "?ups = [spread (q\<lparr>currentStatus := newStatus\<rparr>) additionalData]"
      by (simp add: updatedPackages_of_def)
    show ?thesis
      unfolding ups
      by (simp add: resolve_spec_def overallStatus_def spread_keeps_requested_status [OF np])
  qed
  then have "packages ?new = ?ups \<and> resolve_spec (packages ?new) = Inr (status ?new)" by simp
  with stored ok show ?thesis by blast
qed

theorem C5_order_status_resolved_from_updated_list_witness:
  "map_of (packages_coll db_two) ''PKG-1'' = Some (mkPackage ''PKG-1'' ''ORD-1'' RECEIVED_IN_CHINA)
   \<and> map_of (orders_coll db_two) ''ORD-1''
       = Some (mkOrder ''ORD-1'' [mkPackage ''PKG-1'' ''ORD-1'' RECEIVED_IN_CHINA,
                                  mkPackage ''PKG-2'' ''ORD-1'' ARRIVED_UAE] RECEIVED_IN_CHINA)
   \<and> fst (updatePackageStatus (mkEnv []) ''PKG-1'' DELIVERED ''agent-ir'' ''note'' ''device'' None db_two)
       = Inr ()
   \<and> (\<exists>ord'. map_of (orders_coll (snd (updatePackageStatus (mkEnv []) ''PKG-1'' DELIVERED ''agent-ir''
                                          ''note'' ''device'' None db_two))) ''ORD-1'' = Some ord'
         \<and> packages ord' = [mkPackage ''PKG-1'' ''ORD-1'' DELIVERED,
                            mkPackage ''PKG-2'' ''ORD-1'' ARRIVED_UAE]
         \<and> status ord' = ARRIVED_UAE
         \<and> resolve_spec (packages ord') = Inr (status ord'))"
proof -
  let ?p = "mkPackage ''PKG-1'' ''ORD-1'' RECEIVED_IN_CHINA"
  let ?ord = "mkOrder ''ORD-1'' [mkPackage ''PKG-1'' ''ORD-1'' RECEIVED_IN_CHINA,
                                mkPackage ''PKG-2'' ''ORD-1'' ARRIVED_UAE] RECEIVED_IN_CHINA"
  have len: "1 < length (packages ?ord)
         \<or> ((\<exists>q \<in> set (packages ?ord). id_p q = ''PKG-1'') \<and> \<not> patchesStatus None)"
    by (simp add: mkOrder_def)
  have oid: "orderId ?p = ''ORD-1''" by (simp add: mkPackage_def)
  have ups: "updatedPackages_of ''PKG-1'' DELIVERED None (packages ?ord)
               = [mkPackage ''PKG-1'' ''ORD-1'' DELIVERED, mkPackage ''PKG-2'' ''ORD-1'' ARRIVED_UAE]"
    by (simp add: updatedPackages_of_def mkOrder_def mkPackage_def spread_def)
  have res: "resolve_spec [mkPackage ''PKG-1'' ''ORD-1'' DELIVERED, mkPackage ''PKG-2'' ''ORD-1'' ARRIVED_UAE]
               = Inr ARRIVED_UAE"
    by (simp add: resolve_spec_def mkPackage_def rank_def rank_less_def pipeline_def)
  from C5_order_status_resolved_from_updated_list [OF sample_calls_accepted db_two_docs(1)
      db_two_docs(3) len, of DELIVERED "''agent-ir''" "''note''" "''device''"]
  obtain ord' where ok: "fst (updatePackageStatus (mkEnv []) ''PKG-1'' DELIVERED ''agent-ir'' ''note''
                               ''device'' None db_two) = Inr ()"
    and a: "map_of (orders_coll (snd (updatePackageStatus (mkEnv []) ''PKG-1'' DELIVERED ''agent-ir''
                                          ''note'' ''device'' None db_two))) (orderId ?p) = Some ord'"
    and b: "packages ord' = updatedPackages_of ''PKG-1'' DELIVERED None (packages ?ord)"
    and c: "resolve_spec (packages ord') = Inr (status ord')"
    by blast
  from b ups have b': "packages ord' = [mkPackage ''PKG-1'' ''ORD-1'' DELIVERED,
                            mkPackage ''PKG-2'' ''ORD-1'' ARRIVED_UAE]" by simp
  from c b' res have d: "status ord' = ARRIVED_UAE" by simp
  from a oid have a': "map_of (orders_coll (snd (updatePackageStatus (mkEnv []) ''PKG-1'' DELIVERED
                          ''agent-ir'' ''note'' ''device'' None db_two))) ''ORD-1'' = Some ord'"
    by simp
  from ok a' b' c d db_two_docs(1) db_two_docs(2) show ?thesis by blast
qed

text \<open>
  C5 as stated fails when the parent order does not embed the updated package: the package
  document \<open>PKG-1\<close> names order \<open>ORD-1\<close>, which embeds only \<open>PKG-2\<close> at \<open>QC_CHECKED\<close>. The
  transaction resolves and leaves the order with status \<open>DELIVERED\<close>, while the resolver of
  the specification gives \<open>QC_CHECKED\<close> on the order's list.
\<close>

theorem C5_order_without_the_package_counterexample:
  "fst (updatePackageStatus (mkEnv []) ''PKG-1'' DELIVERED ''agent-ir'' ''note'' ''device'' None db_stale)
     = Inr ()
   \<and> map_option status
        (map_of (orders_coll (snd (updatePackageStatus (mkEnv []) ''PKG-1'' DELIVERED ''agent-ir'' ''note''
                                     ''device'' None db_stale))) ''ORD-1'')
       = Some DELIVERED
   \<and> map_option (\<lambda>ord. resolve_spec (packages ord))
        (map_of (orders_coll (snd (updatePackageStatus (mkEnv []) ''PKG-1'' DELIVERED ''agent-ir'' ''note''
                                     ''device'' None db_stale))) ''ORD-1'')
       = Some (Inr QC_CHECKED)"
proof -
  note ok = updatePackageStatus_resolves(1) [OF sample_calls_accepted db_stale_docs(1),
      of DELIVERED "''agent-ir''" "''note''" "''device''" None]
  note written = updatePackageStatus_order_written [OF sample_calls_accepted db_stale_docs,
      of DELIVERED "''agent-ir''" "''note''" "''device''" None]
  have a: "map_option status
        (map_of (orders_coll (snd (updatePackageStatus (mkEnv []) ''PKG-1'' DELIVERED ''agent-ir'' ''note''
                                     ''device'' None db_stale))) ''ORD-1'')
       = Some DELIVERED"
    unfolding written
    by (simp add: map_of_AList_update mkPackage_def mkOrder_def updatedPackages_of_def overallStatus_def)
  have b: "map_option (\<lambda>ord. resolve_spec (packages ord))
        (map_of (orders_coll (snd (updatePackageStatus (mkEnv []) ''PKG-1'' DELIVERED ''agent-ir'' ''note''
                                     ''device'' None db_stale))) ''ORD-1'')
       = Some (Inr QC_CHECKED)"
    unfolding written
    by (simp add: map_of_AList_update mkPackage_def mkOrder_def updatedPackages_of_def resolve_spec_def)
  from ok a b show ?thesis by blast
qed

section \<open>The administrator's list repeats the boundary statuses\<close>

lemma indexOf_present: "x \<in> set xs \<Longrightarrow> 0 \<le> indexOf xs x"
  using indexOf_ge [of xs x] indexOf_absent [of xs x] by simp

lemma indexOf_append_later:
  "x \<notin> set pre \<Longrightarrow> x \<in> set rest \<Longrightarrow> indexOf (pre @ rest) x = int (length pre) + indexOf rest x"
proof (induction pre)
  case Nil
  then show ?case by simp
next
  case (Cons a pre)
  then have "x \<in> set (pre @ rest)" by simp
  then have "indexOf (pre @ rest) x \<noteq> - 1" by (simp add: indexOf_absent)
  with Cons show ?case by (auto simp: Let_def)
qed

lemma distinct_allowedStatuses: "role \<noteq> ADMIN \<Longrightarrow> distinct (allowedStatuses role)"
  by (cases role) (simp_all add: allowedStatuses_def chinaStatuses_def uaeStatuses_def iranStatuses_def)

text \<open>
  Where the role's list has no repeated status (every role but the administrator), every
  status offered is in the role's list at an index strictly greater than that of the
  current status.
\<close>

lemma next_statuses_strictly_later:
  assumes s: "s \<in> set (getAvailableNextStatuses (Some role) current)"
    and d: "distinct (allowedStatuses role)"
  shows "s \<in> set (allowedStatuses role)
     \<and> indexOf (allowedStatuses role) current < indexOf (allowedStatuses role) s
     \<and> s \<noteq> current"
proof -
  have mem: "current \<in> set (allowedStatuses role)"
  proof (rule ccontr)
    assume "current \<notin> set (allowedStatuses role)"
    then have "getAvailableNextStatuses (Some role) current = []"
      by (rule getAvailableNextStatuses_absent)
    with s show False by simp
  qed
  from indexOf_split [OF mem] obtain pre post
    where q: "allowedStatuses role = pre @ current # post" "current \<notin> set pre"
      and idx: "indexOf (allowedStatuses role) current = int (length pre)"
    by blast
  from getAvailableNextStatuses_present [OF q] s have sp: "s \<in> set post" by simp
  from d q(1) sp have ne: "s \<noteq> current" and np: "s \<notin> set pre" by auto
  from sp have "0 \<le> indexOf post s" by (rule indexOf_present)
  with ne sp have "1 \<le> indexOf (current # post) s"
    by (simp add: Let_def indexOf_absent)
  moreover from np sp have "indexOf (pre @ current # post) s = int (length pre) + indexOf (current # post) s"
    by (simp add: indexOf_append_later)
  ultimately have "int (length pre) < indexOf (allowedStatuses role) s" by (simp add: q(1))
  with idx ne sp q(1) show ?thesis by simp
qed

lemma agent_next_statuses_strictly_later:
  assumes "role \<noteq> ADMIN" and "s \<in> set (getAvailableNextStatuses (Some role) current)"
  shows "s \<in> set (allowedStatuses role)
     \<and> indexOf (allowedStatuses role) current < indexOf (allowedStatuses role) s
     \<and> s \<noteq> current"
  using assms(2) distinct_allowedStatuses [OF assms(1)] by (rule next_statuses_strictly_later)

text \<open>
  C2. Evaluation at the failing input: for the administrator at \<open>SHIPPED_TO_UAE\<close> the list
  of next statuses starts with \<open>SHIPPED_TO_UAE\<close> itself, whose index in the administrator's
  list is that of the current status (6), not a greater one. The same happens at
  \<open>SHIPPED_TO_IRAN\<close>.
\<close>

theorem C2_admin_offered_current_status:
  "getAvailableNextStatuses (Some ADMIN) SHIPPED_TO_UAE
     = [SHIPPED_TO_UAE, ARRIVED_UAE, REPACKING, READY_TO_SHIP_IRAN, SHIPPED_TO_IRAN,
        SHIPPED_TO_IRAN, ARRIVED_IRAN, OUT_FOR_DELIVERY, DELIVERED]
   \<and> SHIPPED_TO_UAE \<in> set (getAvailableNextStatuses (Some ADMIN) SHIPPED_TO_UAE)
   \<and> indexOf (allowedStatuses ADMIN) SHIPPED_TO_UAE = 6
   \<and> getAvailableNextStatuses (Some ADMIN) SHIPPED_TO_IRAN
       = [SHIPPED_TO_IRAN, ARRIVED_IRAN, OUT_FOR_DELIVERY, DELIVERED]
   \<and> indexOf (allowedStatuses ADMIN) SHIPPED_TO_IRAN = 11"
  by (simp add: getAvailableNextStatuses_def allowedStatuses_def chinaStatuses_def uaeStatuses_def
      iranStatuses_def slice_def Let_def)

section \<open>A package that exists only inside its order\<close>

lemma findInOrders_embedded_only:
  "findInOrders ''PKG-1'' (orders_coll db_embedded_only)
     = Some (mkPackage ''PKG-1'' ''ORD-1'' RECEIVED_IN_CHINA,
             mkOrder ''ORD-1'' [mkPackage ''PKG-1'' ''ORD-1'' RECEIVED_IN_CHINA] RECEIVED_IN_CHINA)"
  by (simp add: db_embedded_only_def mkDb_def mkOrder_def mkPackage_def)

text \<open>
  The second copy of the service recovers such a package: with no call rejected, a package
  absent from the \<^verbatim>\<open>packages\<close> collection but found in an order (whose id is not empty) gets
  its document, with the order's id and the requested status, and the run resolves.
\<close>

lemma updatePackageStatus_copy2_recovers:
  assumes "\<forall>call coll. fault env call coll = None"
    and "map_of (packages_coll db) pkgId = None"
    and "findInOrders pkgId (orders_coll db) = Some (q, ord)"
    and "id_o ord \<noteq> []"
  shows "fst (updatePackageStatus_copy2 env pkgId newStatus uid n l additionalData db) = Inr ()"
    and "map_of (packages_coll (snd (updatePackageStatus_copy2 env pkgId newStatus uid n l
                                       additionalData db))) pkgId
           = Some (spread (q\<lparr>orderId := id_o ord, currentStatus := newStatus\<rparr>) additionalData)"
  using assms
  by (auto simp add: updatePackageStatus_copy2_def locateOrder_copy2_def io_defs Let_def
      map_of_AList_update split: option.splits)

lemma updatePackageStatus_copy2_embedded_only:
  "fst (updatePackageStatus_copy2 (mkEnv []) ''PKG-1'' QC_CHECKED ''agent-cn'' ''note'' ''device'' None
          db_embedded_only) = Inr ()
   \<and> map_of (packages_coll (snd (updatePackageStatus_copy2 (mkEnv []) ''PKG-1'' QC_CHECKED ''agent-cn''
                                    ''note'' ''device'' None db_embedded_only))) ''PKG-1''
       = Some (mkPackage ''PKG-1'' ''ORD-1'' QC_CHECKED)"
proof -
  have f: "\<forall>call coll. fault (mkEnv []) call coll = None" by (simp add: mkEnv_fault)
  have a: "map_of (packages_coll db_embedded_only) ''PKG-1'' = None"
    by (simp add: db_embedded_only_def mkDb_def)
  have i: "id_o (mkOrder ''ORD-1'' [mkPackage ''PKG-1'' ''ORD-1'' RECEIVED_IN_CHINA] RECEIVED_IN_CHINA) \<noteq> []"
    by (simp add: mkOrder_def)
  note r = updatePackageStatus_copy2_recovers [OF f a findInOrders_embedded_only i,
      of QC_CHECKED "''agent-cn''" "''note''" "''device''" None]
  have "spread (mkPackage ''PKG-1'' ''ORD-1'' RECEIVED_IN_CHINA
                  \<lparr>orderId := id_o (mkOrder ''ORD-1'' [mkPackage ''PKG-1'' ''ORD-1'' RECEIVED_IN_CHINA]
                                      RECEIVED_IN_CHINA),
                    currentStatus := QC_CHECKED\<rparr>) None
          = mkPackage ''PKG-1'' ''ORD-1'' QC_CHECKED"
    by (simp add: spread_def mkPackage_def mkOrder_def)
  with r show ?thesis by simp
qed

text \<open>
  C6. Evaluation at the failing input: the package \<open>PKG-1\<close> has no document in the
  \<^verbatim>\<open>packages\<close> collection and is embedded in order \<open>ORD-1\<close>. \<open>updatePackageStatus\<close> of
  services/dataService.ts throws \<open>Package not found\<close> and writes nothing, where the claim
  has it succeed and create the document.
\<close>

theorem C6_embedded_only_package_rejected:
  "map_of (packages_coll db_embedded_only) ''PKG-1'' = None
   \<and> map_option (\<lambda>found. (id_p (fst found), id_o (snd found)))
        (findInOrders ''PKG-1'' (orders_coll db_embedded_only)) = Some (''PKG-1'', ''ORD-1'')
   \<and> updatePackageStatus (mkEnv []) ''PKG-1'' QC_CHECKED ''agent-cn'' ''note'' ''device'' None
        db_embedded_only
       = (Inl (Error ''Package not found''), db_embedded_only)"
proof -
  have a: "map_of (packages_coll db_embedded_only) ''PKG-1'' = None"
    by (simp add: db_embedded_only_def mkDb_def)
  have b: "map_option (\<lambda>found. (id_p (fst found), id_o (snd found)))
        (findInOrders ''PKG-1'' (orders_coll db_embedded_only)) = Some (''PKG-1'', ''ORD-1'')"
    unfolding findInOrders_embedded_only by (simp add: mkPackage_def mkOrder_def)
  have f: "fault (mkEnv []) GetDoc Packages = None" by (simp add: mkEnv_fault)
  from updatePackageStatus_absent [OF f a] a b show ?thesis by simp
qed

end
